theory Spec2Isabelle
  imports Complex_Main
begin

section \<open>Conventions of the embedding\<close>

text \<open>
  The two programs are browser scripts: \<^verbatim>\<open>src/watermark/app.js\<close> (image watermark and crop
  editor) and \<^verbatim>\<open>src/app.js\<close> (PDF compression and image-to-PDF assembly).

  JavaScript numbers are modelled as exact reals. Rounding of IEEE doubles, \<^verbatim>\<open>NaN\<close> and the
  infinities are outside the model. Wherever the source divides by a quantity that can be
  zero in a state the editor can reach, the comparison that consumes the quotient is
  written out with the zero case as JavaScript decides it (\<open>js_quot_gt\<close> below); every
  other division is covered by a hypothesis that the divisor is not zero.

  Event handlers mutate one global \<^verbatim>\<open>state\<close> object; they are modelled as functions from
  the state before the event to the state after it.
\<close>

section \<open>Watermark tool: the crop editor (src/watermark/app.js)\<close>

subsection \<open>State\<close>

text \<open>An \<^verbatim>\<open>Image\<close> element, as far as the editor reads it: its pixel width and height.\<close>

record image =
  img_width :: nat
  img_height :: nat

text \<open>
  \<^verbatim>\<open>state.originalImage\<close> together with the fields of \<^verbatim>\<open>state.crop\<close> (lines 7-38).
  The fields \<^verbatim>\<open>x\<close>, \<^verbatim>\<open>y\<close>, \<^verbatim>\<open>width\<close>, \<^verbatim>\<open>height\<close> and \<^verbatim>\<open>scale\<close> of \<^verbatim>\<open>state.crop\<close> carry the
  prefix \<open>crop_\<close>. \<open>None\<close> stands for \<^verbatim>\<open>null\<close> (and for \<^verbatim>\<open>undefined\<close> in \<open>dragType\<close>).
\<close>

record wm_state =
  originalImage :: "image option"
  crop_x :: real
  crop_y :: real
  crop_width :: real
  crop_height :: real
  crop_scale :: real
  aspectRatio :: "real option"
  isDragging :: bool
  dragType :: "string option"
  startMouseX :: real
  startMouseY :: real
  startX :: real
  startY :: real
  startWidth :: real
  startHeight :: real
  canvasWidth :: real
  canvasHeight :: real

text \<open>The object literal of lines 7-38, with no image loaded.\<close>

definition initial_state :: wm_state where
  "initial_state =
     \<lparr> originalImage = None, crop_x = 0, crop_y = 0, crop_width = 0, crop_height = 0,
       crop_scale = 1, aspectRatio = None, isDragging = False, dragType = None,
       startMouseX = 0, startMouseY = 0, startX = 0, startY = 0,
       startWidth = 0, startHeight = 0, canvasWidth = 0, canvasHeight = 0 \<rparr>"

subsection \<open>Platform operations the editor relies on\<close>

text \<open>
  The \<^verbatim>\<open>width\<close> and \<^verbatim>\<open>height\<close> attributes of a canvas element are unsigned integers:
  assigning a number stores its integer part, and reading the attribute back yields that
  integer. For the non-negative values below \<open>2^31\<close> that the editor assigns, this is the
  floor.
\<close>

definition canvas_px :: "real \<Rightarrow> real" where
  "canvas_px v = real_of_int \<lfloor>v\<rfloor>"

text \<open>
  \<^verbatim>\<open>a / b > r\<close> as JavaScript decides it: for \<open>b = 0\<close> the quotient is \<^verbatim>\<open>Infinity\<close> when
  \<open>a\<close> is positive (greater than every finite \<open>r\<close>), and \<^verbatim>\<open>-Infinity\<close> or \<^verbatim>\<open>NaN\<close>
  otherwise (the comparison is false).
\<close>

definition js_quot_gt :: "real \<Rightarrow> real \<Rightarrow> real \<Rightarrow> bool" where
  "js_quot_gt a b r = (if b = 0 then 0 < a else r < a / b)"

text \<open>\<^verbatim>\<open>dragType.includes('e')\<close> for a one-character needle.\<close>

definition str_includes :: "string \<Rightarrow> char \<Rightarrow> bool" where
  "str_includes d c = (c \<in> set d)"

subsection \<open>Opening a session\<close>

text \<open>
  \<^verbatim>\<open>openCropModal\<close> (lines 384-419). \<open>innerWidth\<close> and \<open>innerHeight\<close> are the window's
  dimensions. The crop box is seeded from the canvas element's attributes
  (\<^verbatim>\<open>canvas.width - padding * 2\<close>), which were assigned \<^verbatim>\<open>state.crop.canvasWidth\<close> two lines
  earlier. The definition is meant for images of positive width and height.
\<close>

definition openCropModal :: "real \<Rightarrow> real \<Rightarrow> wm_state \<Rightarrow> wm_state" where
  "openCropModal innerWidth innerHeight s =
     (case originalImage s of
        None \<Rightarrow> s
      | Some img \<Rightarrow>
          let maxWidth = innerWidth * 0.7;
              maxHeight = innerHeight * 0.5;
              scale = min (min (maxWidth / real (img_width img))
                               (maxHeight / real (img_height img))) 1;
              cw = real (img_width img) * scale;
              ch = real (img_height img) * scale;
              padding = 20
          in s\<lparr> crop_scale := scale, canvasWidth := cw, canvasHeight := ch,
                crop_x := padding, crop_y := padding,
                crop_width := canvas_px cw - padding * 2,
                crop_height := canvas_px ch - padding * 2,
                aspectRatio := None \<rparr>)"

subsection \<open>Aspect ratio and clamping\<close>

text \<open>\<^verbatim>\<open>constrainCropBox\<close> (lines 477-485): four assignments, in this order.\<close>

definition constrainCropBox :: "wm_state \<Rightarrow> wm_state" where
  "constrainCropBox s =
     (let x' = max 0 (min (crop_x s) (canvasWidth s - crop_width s));
          y' = max 0 (min (crop_y s) (canvasHeight s - crop_height s));
          w' = max 20 (min (crop_width s) (canvasWidth s - x'));
          h' = max 20 (min (crop_height s) (canvasHeight s - y'))
      in s\<lparr> crop_x := x', crop_y := y', crop_width := w', crop_height := h' \<rparr>)"

text \<open>
  \<^verbatim>\<open>setAspectRatio\<close> (lines 426-453). The argument is the value the first four lines store
  in \<^verbatim>\<open>state.crop.aspectRatio\<close>: \<open>None\<close> for the button \<^verbatim>\<open>'free'\<close>, \<open>Some r\<close> for a button
  \<^verbatim>\<open>'a:b'\<close> with \<open>r = a / b\<close>. The test \<^verbatim>\<open>if (state.crop.aspectRatio)\<close> is false for
  \<^verbatim>\<open>null\<close> and for \<open>0\<close>, and true for every other number.
\<close>

definition setAspectRatio :: "real option \<Rightarrow> wm_state \<Rightarrow> wm_state" where
  "setAspectRatio ratio s =
     (let s1 = s\<lparr> aspectRatio := ratio \<rparr>
      in case ratio of
           None \<Rightarrow> s1
         | Some r \<Rightarrow>
             if r = 0 then s1
             else if js_quot_gt (crop_width s1) (crop_height s1) r
               then constrainCropBox (s1\<lparr> crop_width := crop_height s1 * r \<rparr>)
               else constrainCropBox (s1\<lparr> crop_height := crop_width s1 / r \<rparr>))"

subsection \<open>Drag gestures\<close>

text \<open>
  What a \<^verbatim>\<open>mousedown\<close> on the crop box hit: the box itself, one of its handles (with the
  value of its \<^verbatim>\<open>data-handle\<close> attribute, \<open>None\<close> when the attribute is absent), or
  anything else.
\<close>

datatype target = CropBox | CropHandle "string option" | OtherElement

text \<open>\<^verbatim>\<open>handleCropMouseDown\<close> (lines 487-508), on an event \<open>(target, clientX, clientY)\<close>.\<close>

definition handleCropMouseDown :: "target \<Rightarrow> real \<Rightarrow> real \<Rightarrow> wm_state \<Rightarrow> wm_state" where
  "handleCropMouseDown t clientX clientY s =
     (let start = (\<lambda>d. s\<lparr> dragType := d, isDragging := True,
                           startMouseX := clientX, startMouseY := clientY,
                           startX := crop_x s, startY := crop_y s,
                           startWidth := crop_width s, startHeight := crop_height s \<rparr>)
      in case t of
           CropBox \<Rightarrow> start (Some ''move'')
         | CropHandle h \<Rightarrow> start h
         | OtherElement \<Rightarrow> s)"

text \<open>
  The candidate geometry \<open>(newX, newY, newW, newH)\<close> of a resize (lines 521-545), for the
  handle name \<open>d\<close> and the pointer deltas \<open>dx\<close>, \<open>dy\<close>.
\<close>

definition resize_candidate ::
  "string \<Rightarrow> real \<Rightarrow> real \<Rightarrow> wm_state \<Rightarrow> real \<times> real \<times> real \<times> real" where
  "resize_candidate d dx dy s =
     (let newW0 = (if str_includes d CHR ''e'' then max 20 (startWidth s + dx) else startWidth s);
          newX = (if str_includes d CHR ''w'' then startX s + dx else startX s);
          newW1 = (if str_includes d CHR ''w'' then startWidth s - dx else newW0);
          newH0 = (if str_includes d CHR ''s'' then max 20 (startHeight s + dy) else startHeight s);
          newY = (if str_includes d CHR ''n'' then startY s + dy else startY s);
          newH1 = (if str_includes d CHR ''n'' then startHeight s - dy else newH0)
      in case aspectRatio s of
           None \<Rightarrow> (newX, newY, newW1, newH1)
         | Some r \<Rightarrow>
             if r = 0 then (newX, newY, newW1, newH1)
             else if d = ''e'' \<or> d = ''w'' then (newX, newY, newW1, newW1 / r)
             else if d = ''n'' \<or> d = ''s'' then (newX, newY, newH1 * r, newH1)
             else if js_quot_gt newW1 newH1 r then (newX, newY, newH1 * r, newH1)
             else (newX, newY, newW1, newW1 / r))"

text \<open>The two acceptance tests of lines 548 and 552.\<close>

definition accept_x :: "wm_state \<Rightarrow> real \<Rightarrow> real \<Rightarrow> bool" where
  "accept_x s newX newW = (newW \<ge> 20 \<and> newX \<ge> 0 \<and> newX + newW \<le> canvasWidth s)"

definition accept_y :: "wm_state \<Rightarrow> real \<Rightarrow> real \<Rightarrow> bool" where
  "accept_y s newY newH = (newH \<ge> 20 \<and> newY \<ge> 0 \<and> newY + newH \<le> canvasHeight s)"

text \<open>
  \<^verbatim>\<open>handleCropMouseMove\<close> (lines 510-559), on an event \<open>(clientX, clientY)\<close>. With
  \<open>dragType = None\<close> the call \<^verbatim>\<open>dragType.includes\<close> throws before anything is assigned,
  so the state is left as it was.
\<close>

definition handleCropMouseMove :: "real \<Rightarrow> real \<Rightarrow> wm_state \<Rightarrow> wm_state" where
  "handleCropMouseMove clientX clientY s =
     (if \<not> isDragging s then s
      else
        let dx = clientX - startMouseX s;
            dy = clientY - startMouseY s
        in case dragType s of
             None \<Rightarrow> s
           | Some d \<Rightarrow>
               if d = ''move'' then
                 s\<lparr> crop_x := max 0 (min (startX s + dx) (canvasWidth s - crop_width s)),
                    crop_y := max 0 (min (startY s + dy) (canvasHeight s - crop_height s)) \<rparr>
               else
                 (case resize_candidate d dx dy s of
                    (newX, newY, newW, newH) \<Rightarrow>
                      let s1 = (if accept_x s newX newW
                                then s\<lparr> crop_x := newX, crop_width := newW \<rparr> else s)
                      in (if accept_y s newY newH
                          then s1\<lparr> crop_y := newY, crop_height := newH \<rparr> else s1)))"

text \<open>\<^verbatim>\<open>handleCropMouseUp\<close> (lines 561-564) and \<^verbatim>\<open>closeCropModal\<close> (lines 421-424).\<close>

definition handleCropMouseUp :: "wm_state \<Rightarrow> wm_state" where
  "handleCropMouseUp s = s\<lparr> isDragging := False, dragType := None \<rparr>"

definition closeCropModal :: "wm_state \<Rightarrow> wm_state" where
  "closeCropModal s = s\<lparr> isDragging := False \<rparr>"

subsection \<open>Committing the crop\<close>

text \<open>The arguments of the \<^verbatim>\<open>drawImage\<close> call of line 581: the source rectangle, in pixels of
  the original image.\<close>

record crop_command =
  cmd_left :: real
  cmd_top :: real
  cmd_width :: real
  cmd_height :: real

text \<open>
  What a call of \<^verbatim>\<open>applyCrop\<close> does besides changing the state: the messages it passes
  to \<^verbatim>\<open>alert\<close>, whether an exception leaves it (the \<^verbatim>\<open>TypeError\<close> of \<^verbatim>\<open>drawImage\<close> when no
  image is loaded), and the \<^verbatim>\<open>drawImage\<close> call of line 581 when it is reached. The function
  returns no value and contains no \<^verbatim>\<open>alert\<close>, so the message list is empty on every path.
\<close>

record crop_effect =
  alerted :: "string list"
  raised :: bool
  drawn :: "crop_command option"

text \<open>
  \<^verbatim>\<open>applyCrop\<close> (lines 566-591), for \<open>crop_scale s \<noteq> 0\<close>. Line 573 is a bare
  \<^verbatim>\<open>return\<close>. The temporary canvas takes the integer parts of \<open>width\<close> and \<open>height\<close>; the
  image decoded from it has these dimensions and replaces \<^verbatim>\<open>state.originalImage\<close> in the
  \<^verbatim>\<open>onload\<close> callback, which also closes the modal. The callback is folded into the
  result.
\<close>

definition applyCrop :: "wm_state \<Rightarrow> wm_state \<times> crop_effect" where
  "applyCrop s =
     (let scale = crop_scale s;
          left = crop_x s / scale;
          top = crop_y s / scale;
          width = crop_width s / scale;
          height = crop_height s / scale
      in if width < 10 \<or> height < 10
         then (s, \<lparr> alerted = [], raised = False, drawn = None \<rparr>)
         else case originalImage s of
                None \<Rightarrow> (s, \<lparr> alerted = [], raised = True, drawn = None \<rparr>)
              | Some img \<Rightarrow>
                  (closeCropModal
                     (s\<lparr> originalImage :=
                          Some \<lparr> img_width = nat \<lfloor>width\<rfloor>, img_height = nat \<lfloor>height\<rfloor> \<rparr> \<rparr>),
                   \<lparr> alerted = [], raised = False,
                     drawn = Some \<lparr> cmd_left = left, cmd_top = top,
                                    cmd_width = width, cmd_height = height \<rparr> \<rparr>))"

subsection \<open>Sessions and the region invariant\<close>

text \<open>The six inequalities the region is meant to satisfy.\<close>

definition region_ok :: "wm_state \<Rightarrow> bool" where
  "region_ok s =
     (0 \<le> crop_x s \<and> 0 \<le> crop_y s \<and>
      crop_x s + crop_width s \<le> canvasWidth s \<and>
      crop_y s + crop_height s \<le> canvasHeight s \<and>
      20 \<le> crop_width s \<and> 20 \<le> crop_height s)"

text \<open>
  The events that the listeners of lines 628-641 deliver while the modal is open, and the
  handler each one runs.
\<close>

datatype crop_event =
    RatioClick "real option"
  | MouseDown target real real
  | MouseMove real real
  | MouseUp

fun crop_step :: "crop_event \<Rightarrow> wm_state \<Rightarrow> wm_state" where
  "crop_step (RatioClick r) s = setAspectRatio r s"
| "crop_step (MouseDown t cx cy) s = handleCropMouseDown t cx cy s"
| "crop_step (MouseMove cx cy) s = handleCropMouseMove cx cy s"
| "crop_step MouseUp s = handleCropMouseUp s"

definition run_events :: "crop_event list \<Rightarrow> wm_state \<Rightarrow> wm_state" where
  "run_events evs s = fold crop_step evs s"

subsection \<open>The operations as the specification words them\<close>

text \<open>
  Follows the specification's words for translate mode:
  \<open>newOrigin = clamp(startOrigin + delta, [0,0], bounds - size)\<close>, one coordinate at a time.
\<close>

definition spec_clamp :: "real \<Rightarrow> real \<Rightarrow> real \<Rightarrow> real" where
  "spec_clamp v lo hi = (if v < lo then lo else if hi < v then hi else v)"


section \<open>Watermark tool: rendering (src/watermark/app.js)\<close>

subsection \<open>Settings and strings\<close>

text \<open>
  A JavaScript string is a sequence of UTF-16 code units. \<^verbatim>\<open>String.prototype.trim\<close> removes
  from both ends the code units that are white space or line terminators.
\<close>

type_synonym js_string = "nat list"

definition is_white_space :: "nat \<Rightarrow> bool" where
  "is_white_space c =
     (c \<in> {0x9, 0xA, 0xB, 0xC, 0xD, 0x20, 0xA0, 0x1680, 0x2028, 0x2029,
            0x202F, 0x205F, 0x3000, 0xFEFF} \<or> (0x2000 \<le> c \<and> c \<le> 0x200A))"

definition trim :: "js_string \<Rightarrow> js_string" where
  "trim t = rev (dropWhile is_white_space (rev (dropWhile is_white_space t)))"

text \<open>\<^verbatim>\<open>state.settings\<close> (lines 10-19): the numbers are results of \<^verbatim>\<open>parseInt\<close>; the field
  \<^verbatim>\<open>text\<close> is named \<open>wm_text\<close>.\<close>

record settings =
  wm_text :: js_string
  fontSize :: int
  opacity :: int
  rotation :: int
  color :: string
  position :: string
  tile :: bool
  tileSpacing :: int

subsection \<open>The drawing surface\<close>

text \<open>
  The part of a 2D context the renderer touches: the drawing state (what \<^verbatim>\<open>save\<close> pushes and
  \<^verbatim>\<open>restore\<close> pops), the stack of saved states, and the list of drawing operations done on
  the bitmap, each \<^verbatim>\<open>fillText\<close> with the drawing state it was done under.
\<close>

datatype font = DefaultFont | BoldInter int

datatype transform_op = Translate real real | Rotate real

record drawing_state =
  ds_font :: font
  fillStyle :: string
  globalAlpha :: real
  textAlign :: string
  textBaseline :: string
  shadowColor :: string
  shadowBlur :: real
  shadowOffsetX :: real
  shadowOffsetY :: real
  transform :: "transform_op list"

datatype draw_op =
    DrawImage image real real
  | FillText js_string real real drawing_state

record canvas =
  cv_width :: nat
  cv_height :: nat
  cur :: drawing_state
  saved :: "drawing_state list"
  surface :: "draw_op list"

text \<open>The drawing state of a fresh context.\<close>

definition default_drawing_state :: drawing_state where
  "default_drawing_state =
     \<lparr> ds_font = DefaultFont, fillStyle = ''#000000'', globalAlpha = 1,
       textAlign = ''start'', textBaseline = ''alphabetic'',
       shadowColor = ''rgba(0, 0, 0, 0)'', shadowBlur = 0,
       shadowOffsetX = 0, shadowOffsetY = 0, transform = [] \<rparr>"

text \<open>Assigning \<^verbatim>\<open>canvas.width\<close> and \<^verbatim>\<open>canvas.height\<close> clears the bitmap and resets the
  context.\<close>

definition resize_canvas :: "nat \<Rightarrow> nat \<Rightarrow> canvas" where
  "resize_canvas w h =
     \<lparr> cv_width = w, cv_height = h, cur = default_drawing_state, saved = [], surface = [] \<rparr>"

definition ctx_save :: "canvas \<Rightarrow> canvas" where
  "ctx_save c = c\<lparr> saved := cur c # saved c \<rparr>"

definition ctx_restore :: "canvas \<Rightarrow> canvas" where
  "ctx_restore c = (case saved c of [] \<Rightarrow> c | d # ds \<Rightarrow> c\<lparr> cur := d, saved := ds \<rparr>)"

definition ctx_transform :: "transform_op \<Rightarrow> canvas \<Rightarrow> canvas" where
  "ctx_transform t c = c\<lparr> cur := (cur c)\<lparr> transform := transform (cur c) @ [t] \<rparr> \<rparr>"

definition fillText :: "js_string \<Rightarrow> real \<Rightarrow> real \<Rightarrow> canvas \<Rightarrow> canvas" where
  "fillText t x y c = c\<lparr> surface := surface c @ [FillText t x y (cur c)] \<rparr>"

definition drawImage :: "image \<Rightarrow> real \<Rightarrow> real \<Rightarrow> canvas \<Rightarrow> canvas" where
  "drawImage img x y c = c\<lparr> surface := surface c @ [DrawImage img x y] \<rparr>"

subsection \<open>Anchors\<close>

record point =
  pt_x :: real
  pt_y :: real

text \<open>The own properties of the object literal \<^verbatim>\<open>positions\<close> (lines 305-315), in its order;
  \<open>fsz\<close> is the parameter \<^verbatim>\<open>fontSize\<close>.\<close>

definition positions :: "real \<Rightarrow> real \<Rightarrow> real \<Rightarrow> (string \<times> point) list" where
  "positions width height fsz =
     (let padding = fsz * 0.8 in
      [(''top-left'', \<lparr> pt_x = padding + fsz, pt_y = padding + fsz / 2 \<rparr>),
       (''top-center'', \<lparr> pt_x = width / 2, pt_y = padding + fsz / 2 \<rparr>),
       (''top-right'', \<lparr> pt_x = width - padding - fsz, pt_y = padding + fsz / 2 \<rparr>),
       (''middle-left'', \<lparr> pt_x = padding + fsz, pt_y = height / 2 \<rparr>),
       (''center'', \<lparr> pt_x = width / 2, pt_y = height / 2 \<rparr>),
       (''middle-right'', \<lparr> pt_x = width - padding - fsz, pt_y = height / 2 \<rparr>),
       (''bottom-left'', \<lparr> pt_x = padding + fsz, pt_y = height - padding - fsz / 2 \<rparr>),
       (''bottom-center'', \<lparr> pt_x = width / 2, pt_y = height - padding - fsz / 2 \<rparr>),
       (''bottom-right'',
          \<lparr> pt_x = width - padding - fsz, pt_y = height - padding - fsz / 2 \<rparr>)])"

text \<open>
  An object literal inherits from \<^verbatim>\<open>Object.prototype\<close>: a property read with one of these
  names, when the object has no own property of that name, yields the inherited member
  (a function, or the prototype object itself for \<^verbatim>\<open>__proto__\<close>), which is truthy.
\<close>

definition object_prototype_names :: "string list" where
  "object_prototype_names =
     [''constructor'', ''hasOwnProperty'', ''isPrototypeOf'', ''propertyIsEnumerable'',
      ''toLocaleString'', ''toString'', ''valueOf'', ''__proto__'',
      ''__defineGetter__'', ''__defineSetter__'', ''__lookupGetter__'', ''__lookupSetter__'']"

text \<open>What \<^verbatim>\<open>getPosition\<close> returns: one of the points of the literal, or an inherited member
  of \<^verbatim>\<open>Object.prototype\<close>, which has no \<^verbatim>\<open>x\<close> and no \<^verbatim>\<open>y\<close>.\<close>

datatype position_value = Anchor point | Inherited string

text \<open>\<^verbatim>\<open>getPosition\<close> (lines 303-317): \<^verbatim>\<open>positions[position] || positions.center\<close>.\<close>

definition getPosition :: "string \<Rightarrow> real \<Rightarrow> real \<Rightarrow> real \<Rightarrow> position_value" where
  "getPosition pos width height fsz =
     (case map_of (positions width height fsz) pos of
        Some p \<Rightarrow> Anchor p
      | None \<Rightarrow>
          if pos \<in> set object_prototype_names then Inherited pos
          else Anchor \<lparr> pt_x = width / 2, pt_y = height / 2 \<rparr>)"

subsection \<open>Rendering the watermark\<close>

text \<open>
  The values a loop \<^verbatim>\<open>for (let v = start; v < bound; v += step)\<close> visits, for a positive
  \<open>step\<close>. With \<open>step \<le> 0\<close> a loop that is entered never ends; the caller below accounts
  for that case.
\<close>

function loop_values :: "real \<Rightarrow> real \<Rightarrow> real \<Rightarrow> real list" where
  "loop_values v bound step =
     (if v < bound \<and> 0 < step then v # loop_values (v + step) bound step else [])"
  by pat_completeness auto
termination
proof (relation "measure (\<lambda>(v, bound, step). nat \<lceil>(bound - v) / step\<rceil>)")
  show "wf (measure (\<lambda>(v, bound, step). nat \<lceil>(bound - v) / step\<rceil>))"
    by simp
next
  fix v bound step :: real
  assume a: "v < bound \<and> 0 < step"
  have "(bound - (v + step)) / step = (bound - v) / step - 1"
    using a by (simp add: field_simps)
  moreover have "0 < (bound - v) / step"
    using a by simp
  then have "0 < \<lceil>(bound - v) / step\<rceil>"
    by simp
  ultimately show "((v + step, bound, step), (v, bound, step))
      \<in> measure (\<lambda>(v, bound, step). nat \<lceil>(bound - v) / step\<rceil>)"
    by simp
qed

text \<open>Lines 290-294 and 269-272: the shadow of the tiled and of the single watermark.\<close>

definition set_shadow :: "string \<Rightarrow> real \<Rightarrow> real \<Rightarrow> real \<Rightarrow> canvas \<Rightarrow> canvas" where
  "set_shadow col blur ox oy c =
     c\<lparr> cur := (cur c)\<lparr> shadowColor := col, shadowBlur := blur,
                        shadowOffsetX := ox, shadowOffsetY := oy \<rparr> \<rparr>"

text \<open>
  \<^verbatim>\<open>renderTiledWatermark\<close> (lines 280-301). \<open>measureText\<close> is the context's text
  measurement under the current font; \<open>st\<close> is \<^verbatim>\<open>state.settings\<close>, read for
  \<^verbatim>\<open>tileSpacing\<close>. The result is \<open>None\<close> when the loops never end.
\<close>

definition renderTiledWatermark ::
  "(font \<Rightarrow> js_string \<Rightarrow> real) \<Rightarrow> settings \<Rightarrow> canvas \<Rightarrow> real \<Rightarrow> real \<Rightarrow>
     js_string \<Rightarrow> real \<Rightarrow> real \<Rightarrow> canvas option" where
  "renderTiledWatermark measureText st c width height txt fsz rot =
     (let textWidth = measureText (ds_font (cur c)) txt;
          spacingFactor = real_of_int (tileSpacing st) / 100;
          baseSpacing = max (textWidth * 1.5) (fsz * 3);
          spacing = baseSpacing * spacingFactor;
          diagonal = sqrt (width * width + height * height);
          c1 = ctx_transform (Translate (width / 2) (height / 2)) c;
          c2 = ctx_transform (Rotate (rot * pi / 180)) c1;
          c3 = set_shadow ''rgba(0, 0, 0, 0.3)'' 3 1 1 c2
      in if - diagonal < diagonal \<and> spacing \<le> 0 then None
         else Some (fold (\<lambda>y. fold (\<lambda>x. fillText txt x y)
                                   (loop_values (- diagonal) diagonal spacing))
                         (loop_values (- diagonal) diagonal (spacing * 0.7)) c3))"

text \<open>
  \<^verbatim>\<open>applyWatermark\<close> (lines 244-278). An assignment to \<^verbatim>\<open>globalAlpha\<close> outside \<open>[0, 1]\<close>
  is ignored by the context, and so is a \<^verbatim>\<open>translate\<close> whose arguments are not numbers
  (the \<^verbatim>\<open>x\<close> and \<^verbatim>\<open>y\<close> of an inherited member are \<^verbatim>\<open>undefined\<close>).
\<close>

definition applyWatermark ::
  "(font \<Rightarrow> js_string \<Rightarrow> real) \<Rightarrow> settings \<Rightarrow> canvas \<Rightarrow> real \<Rightarrow> real \<Rightarrow> canvas option" where
  "applyWatermark measureText st c width height =
     (if trim (wm_text st) = [] then Some c
      else
        let c1 = ctx_save c;
            alpha = real_of_int (opacity st) / 100;
            c2 = c1\<lparr> cur := (cur c1)\<lparr> ds_font := BoldInter (fontSize st),
                                     fillStyle := color st,
                                     globalAlpha :=
                                       (if 0 \<le> alpha \<and> alpha \<le> 1 then alpha
                                        else globalAlpha (cur c1)),
                                     textAlign := ''center'',
                                     textBaseline := ''middle'' \<rparr> \<rparr>;
            fsz = real_of_int (fontSize st);
            rot = real_of_int (rotation st)
        in map_option ctx_restore
             (if tile st
              then renderTiledWatermark measureText st c2 width height (wm_text st) fsz rot
              else
                let c3 = (case getPosition (position st) width height fsz of
                            Anchor p \<Rightarrow> ctx_transform (Translate (pt_x p) (pt_y p)) c2
                          | Inherited m \<Rightarrow> c2);
                    c4 = ctx_transform (Rotate (rot * pi / 180)) c3;
                    c5 = set_shadow ''rgba(0, 0, 0, 0.5)'' 4 2 2 c4
                in Some (fillText (wm_text st) 0 0 c5)))"

text \<open>
  \<^verbatim>\<open>renderPreview\<close> (lines 226-242): \<open>img\<close> is \<^verbatim>\<open>state.originalImage\<close>, \<open>c\<close> the preview
  canvas before the call.
\<close>

definition renderPreview ::
  "(font \<Rightarrow> js_string \<Rightarrow> real) \<Rightarrow> settings \<Rightarrow> image option \<Rightarrow> canvas \<Rightarrow> canvas option" where
  "renderPreview measureText st img c =
     (case img of
        None \<Rightarrow> Some c
      | Some i \<Rightarrow>
          let c1 = resize_canvas (img_width i) (img_height i);
              c2 = drawImage i 0 0 c1
          in applyWatermark measureText st c2 (real (cv_width c2)) (real (cv_height c2)))"

section \<open>PDF tool: compression (src/app.js, lines 1-880)\<close>

subsection \<open>State and page elements\<close>

record pdf_file =
  file_name :: string
  file_size :: nat
  file_type :: string

record blob =
  blob_size :: nat

text \<open>
  The text of the size fields is \<^verbatim>\<open>formatFileSize(n)\<close>, kept as the number it formats. The
  badge holds the percentage printed in front of \<^verbatim>\<open>% smaller\<close> or \<^verbatim>\<open>% larger\<close>;
  \<open>LargerNotFinite\<close> is the badge of an original size of zero, where the percentage is
  \<^verbatim>\<open>Infinity\<close> or \<^verbatim>\<open>NaN\<close>. The two tips are the constant strings of lines 427 and 429.
\<close>

datatype size_text = NoSizeText | FormattedSize nat

datatype badge = NoBadge | Smaller int | Larger int | LargerNotFinite

datatype tip = NoTip | LossyTip | LosslessTip

text \<open>
  The compression fields of \<^verbatim>\<open>state\<close> (lines 12-18; \<^verbatim>\<open>state.file\<close> is \<open>st_file\<close>), then the elements the compression run
  writes: the value of the mode selector, the \<^verbatim>\<open>hidden\<close> class of five sections, the
  button's \<^verbatim>\<open>disabled\<close>, the result fields, and the messages passed to \<^verbatim>\<open>alert\<close>. The
  progress text and bar are not modelled.
\<close>

record pdf_state =
  st_file :: "pdf_file option"
  compressedBlob :: "blob option"
  originalSize :: nat
  compressedSize :: nat
  isProcessing :: bool
  compressionMode :: string
  dropZone_hidden :: bool
  fileInfo_hidden :: bool
  settingsPanel_hidden :: bool
  progressSection_hidden :: bool
  resultsSection_hidden :: bool
  compressBtn_disabled :: bool
  el_originalSize :: size_text
  el_compressedSize :: size_text
  savingsBadge :: badge
  savingsBadge_background :: string
  resultTip_hidden :: bool
  resultTip_text :: tip
  alerts :: "string list"

subsection \<open>Showing the result\<close>

text \<open>
  \<^verbatim>\<open>x.toFixed(0)\<close> read back as a number: the nearest integer, a tie going away from zero.
\<close>

definition toFixed0 :: "real \<Rightarrow> int" where
  "toFixed0 v = (if v < 0 then - \<lfloor>- v + 1 / 2\<rfloor> else \<lfloor>v + 1 / 2\<rfloor>)"

text \<open>
  \<^verbatim>\<open>showResults\<close> (lines 402-432). For \<^verbatim>\<open>state.originalSize\<close> equal to zero the quotient is
  \<^verbatim>\<open>Infinity\<close> or \<^verbatim>\<open>NaN\<close>, \<^verbatim>\<open>savings > 0\<close> is false and the second branch runs.
\<close>

definition showResults :: "pdf_state \<Rightarrow> pdf_state" where
  "showResults s =
     (let s1 = s\<lparr> progressSection_hidden := True, resultsSection_hidden := False,
                  el_originalSize := FormattedSize (originalSize s),
                  el_compressedSize := FormattedSize (compressedSize s) \<rparr>;
          savings = toFixed0 ((1 - real (compressedSize s) / real (originalSize s)) * 100);
          s2 = s1\<lparr> resultTip_hidden := True, resultTip_text := NoTip \<rparr>
      in if originalSize s \<noteq> 0 \<and> savings > 0
         then s2\<lparr> savingsBadge := Smaller savings,
                   savingsBadge_background := ''var(--accent-gradient)'' \<rparr>
         else s2\<lparr> savingsBadge :=
                     (if originalSize s = 0 then LargerNotFinite else Larger \<bar>savings\<bar>),
                   savingsBadge_background := ''var(--warning-color)'',
                   resultTip_hidden := False,
                   resultTip_text :=
                     (if compressionMode s = ''lossy'' then LossyTip else LosslessTip) \<rparr>)"

text \<open>\<^verbatim>\<open>removeFile\<close> (lines 216-228).\<close>

definition removeFile :: "pdf_state \<Rightarrow> pdf_state" where
  "removeFile s =
     s\<lparr> st_file := None, compressedBlob := None, originalSize := 0, compressedSize := 0,
        dropZone_hidden := False, fileInfo_hidden := True, settingsPanel_hidden := True,
        progressSection_hidden := True, resultsSection_hidden := True \<rparr>"

subsection \<open>The compression run\<close>

text \<open>
  What the document libraries do is outside the program: a run either throws somewhere
  (\<open>LibThrew\<close>) or yields the bytes of the new document, of which the program keeps the
  blob and reads the size (\<open>LibBytes n\<close>).
\<close>

datatype lib_result = LibThrew | LibBytes nat

text \<open>
  \<^verbatim>\<open>compressLossless\<close> (lines 297-335) and \<^verbatim>\<open>compressLossy\<close> (lines 338-400): \<open>None\<close> when
  an exception leaves the function, else the state with the blob and its size stored.
\<close>

definition compressLossless :: "lib_result \<Rightarrow> pdf_state \<Rightarrow> pdf_state option" where
  "compressLossless lib s =
     (case lib of
        LibThrew \<Rightarrow> None
      | LibBytes n \<Rightarrow> Some (s\<lparr> compressedBlob := Some \<lparr> blob_size = n \<rparr>, compressedSize := n \<rparr>))"

definition compressLossy :: "lib_result \<Rightarrow> pdf_state \<Rightarrow> pdf_state option" where
  "compressLossy lib s =
     (case lib of
        LibThrew \<Rightarrow> None
      | LibBytes n \<Rightarrow> Some (s\<lparr> compressedBlob := Some \<lparr> blob_size = n \<rparr>, compressedSize := n \<rparr>))"

text \<open>
  \<^verbatim>\<open>compressPDF\<close> (lines 269-294): the guard, the \<^verbatim>\<open>try\<close> block with \<^verbatim>\<open>showResults\<close>, the
  \<^verbatim>\<open>catch\<close> block with the alert and \<^verbatim>\<open>removeFile\<close>, and the \<^verbatim>\<open>finally\<close> block.
\<close>

definition compressPDF :: "lib_result \<Rightarrow> pdf_state \<Rightarrow> pdf_state" where
  "compressPDF lib s =
     (if st_file s = None \<or> isProcessing s then s
      else
        let s1 = s\<lparr> isProcessing := True, settingsPanel_hidden := True,
                     progressSection_hidden := False, compressBtn_disabled := True \<rparr>;
            attempt = (if compressionMode s1 = ''lossless'' then compressLossless lib s1
                       else compressLossy lib s1);
            s2 = (case attempt of
                    Some s' \<Rightarrow> showResults s'
                  | None \<Rightarrow>
                      removeFile
                        (s1\<lparr> alerts := alerts s1 @
                              [''An error occurred while compressing the PDF. Please try again.''] \<rparr>))
        in s2\<lparr> isProcessing := False, compressBtn_disabled := False \<rparr>)"

section \<open>PDF tool: pages from images (src/app.js, lines 585-682)\<close>

text \<open>
  The geometry of one page, lines 619-652: the page format, and where and how large the
  image is placed on it, all in millimetres.
\<close>

record page_layout =
  pageWidth :: real
  pageHeight :: real
  imgX :: real
  imgY :: real
  imgFinalWidth :: real
  imgFinalHeight :: real

text \<open>The own properties of the object literal \<^verbatim>\<open>pageSizes\<close> (lines 600-604).\<close>

definition pageSizes :: "(string \<times> real \<times> real) list" where
  "pageSizes = [(''a4'', (210, 297)), (''letter'', (215.9, 279.4)), (''legal'', (215.9, 355.6))]"

text \<open>
  A page size that is no key of \<^verbatim>\<open>pageSizes\<close> makes \<^verbatim>\<open>pg\<close> undefined, and \<^verbatim>\<open>pg.width\<close>
  throws (\<open>UnknownPageSize\<close>); for a name inherited from \<^verbatim>\<open>Object.prototype\<close> the reads
  \<^verbatim>\<open>pg.width\<close> and \<^verbatim>\<open>pg.height\<close> are \<^verbatim>\<open>undefined\<close> and the geometry is not a number.
\<close>

datatype layout_result = Layout page_layout | UnknownPageSize | NotANumber

text \<open>Lines 619-652, for an image of positive width and height.\<close>

definition image_layout :: "string \<Rightarrow> nat \<Rightarrow> nat \<Rightarrow> layout_result" where
  "image_layout pageSize imgWidth imgHeight =
     (if pageSize = ''fit'' then
        let pw = (real imgWidth / 96) * 25.4;
            ph = (real imgHeight / 96) * 25.4
        in Layout \<lparr> pageWidth = pw, pageHeight = ph, imgX = 0, imgY = 0,
                    imgFinalWidth = pw, imgFinalHeight = ph \<rparr>
      else
        case map_of pageSizes pageSize of
          None \<Rightarrow> if pageSize \<in> set object_prototype_names then NotANumber else UnknownPageSize
        | Some (pw, ph) \<Rightarrow>
            let margin = 10;
                availWidth = pw - margin * 2;
                availHeight = ph - margin * 2;
                imgRatio = real imgWidth / real imgHeight;
                availRatio = availWidth / availHeight;
                fw = (if imgRatio > availRatio then availWidth else availHeight * imgRatio);
                fh = (if imgRatio > availRatio then availWidth / imgRatio else availHeight)
            in Layout \<lparr> pageWidth = pw, pageHeight = ph,
                        imgX = margin + (availWidth - fw) / 2,
                        imgY = margin + (availHeight - fh) / 2,
                        imgFinalWidth = fw, imgFinalHeight = fh \<rparr>)"

text \<open>
  What the loop hands to the document builder for one image (lines 657-668): the
  orientation, the page format, and the rectangle of \<^verbatim>\<open>addImage\<close>.
\<close>

datatype orientation = Landscape | Portrait

record pdf_page =
  pg_orientation :: orientation
  pg_format :: "real \<times> real"
  pg_image :: "real \<times> real \<times> real \<times> real"

definition page_of_layout :: "page_layout \<Rightarrow> pdf_page" where
  "page_of_layout l =
     \<lparr> pg_orientation = (if pageWidth l > pageHeight l then Landscape else Portrait),
       pg_format = (pageWidth l, pageHeight l),
       pg_image = (imgX l, imgY l, imgFinalWidth l, imgFinalHeight l) \<rparr>"

text \<open>
  The loop of lines 606-669 over \<^verbatim>\<open>state.images\<close>: the pages in list order, or the first
  result that is no layout.
\<close>

fun assemble_pages :: "string \<Rightarrow> image list \<Rightarrow> layout_result + pdf_page list" where
  "assemble_pages pageSize [] = Inr []"
| "assemble_pages pageSize (img # imgs) =
     (case image_layout pageSize (img_width img) (img_height img) of
        Layout l \<Rightarrow>
          (case assemble_pages pageSize imgs of
             Inr ps \<Rightarrow> Inr (page_of_layout l # ps)
           | Inl e \<Rightarrow> Inl e)
      | e \<Rightarrow> Inl e)"

text \<open>
  How \<^verbatim>\<open>createPdfFromImages\<close> ends: the guard of line 586 returns at once, the document is
  built from the pages, or no document is modelled. In the last case \<open>UnknownPageSize\<close>
  is the \<^verbatim>\<open>TypeError\<close> caught at line 674, which shows the alert and the image list again;
  \<open>NotANumber\<close> is geometry that is not a number, and what the document builder does with
  it is outside the program.
\<close>

datatype assembly = NotStarted | NoDocument layout_result | Assembled "pdf_page list"

text \<open>
  \<^verbatim>\<open>createPdfFromImages\<close> (lines 585-682): \<open>processing\<close> is \<^verbatim>\<open>state.isProcessing\<close>, \<open>pageSize\<close>
  the value of the page size selector, \<open>images\<close> the decoded \<^verbatim>\<open>state.images\<close>. The
  re-encoding of each image by \<^verbatim>\<open>compressImage\<close> changes the pixels handed to
  \<^verbatim>\<open>addImage\<close>, not the geometry, and is not modelled.
\<close>

definition createPdfFromImages :: "bool \<Rightarrow> string \<Rightarrow> image list \<Rightarrow> assembly" where
  "createPdfFromImages processing pageSize images =
     (if images = [] \<or> processing then NotStarted
      else case assemble_pages pageSize images of
             Inr ps \<Rightarrow> Assembled ps
           | Inl e \<Rightarrow> NoDocument e)"

text \<open>
  Follows the specification's words for a named page size: the page has that size; the
  image keeps its aspect ratio \<open>w / h\<close>, lies inside the page minus a margin of 10 on each
  side and reaches that margin box in width or in height, so that no larger size fits;
  and it is centred: the space to its left equals the space to its right, and the space
  above equals the space below, inside the margin box.
\<close>

definition spec_fitted :: "real \<Rightarrow> real \<Rightarrow> nat \<Rightarrow> nat \<Rightarrow> page_layout \<Rightarrow> bool" where
  "spec_fitted pw ph w h l =
     (pageWidth l = pw \<and> pageHeight l = ph \<and>
      0 < imgFinalWidth l \<and> 0 < imgFinalHeight l \<and>
      imgFinalWidth l / imgFinalHeight l = real w / real h \<and>
      imgFinalWidth l \<le> pw - 20 \<and> imgFinalHeight l \<le> ph - 20 \<and>
      (imgFinalWidth l = pw - 20 \<or> imgFinalHeight l = ph - 20) \<and>
      imgX l - 10 = (pw - 10) - (imgX l + imgFinalWidth l) \<and>
      imgY l - 10 = (ph - 10) - (imgY l + imgFinalHeight l))"

text \<open>
  Follows the specification's words for what the assembly hands over for one image: in
  mode \<^verbatim>\<open>fit\<close> the page is sized to the image at 96 pixels per inch and the image fills it
  from (0, 0); for a named size the page and the image rectangle are fitted and centred
  as \<open>spec_fitted\<close> words it.
\<close>

definition spec_page_fit :: "nat \<Rightarrow> nat \<Rightarrow> pdf_page \<Rightarrow> bool" where
  "spec_page_fit w h p =
     (pg_format p = ((real w / 96) * 25.4, (real h / 96) * 25.4) \<and>
      pg_image p = (0, 0, (real w / 96) * 25.4, (real h / 96) * 25.4))"

definition spec_page_named :: "real \<Rightarrow> real \<Rightarrow> nat \<Rightarrow> nat \<Rightarrow> pdf_page \<Rightarrow> bool" where
  "spec_page_named pw ph w h p =
     (case pg_image p of
        (x, y, fw, fh) \<Rightarrow>
          spec_fitted pw ph w h
            \<lparr> pageWidth = fst (pg_format p), pageHeight = snd (pg_format p),
              imgX = x, imgY = y, imgFinalWidth = fw, imgFinalHeight = fh \<rparr>)"

section \<open>Properties of the crop editor\<close>

subsection \<open>Auxiliary facts\<close>

lemma canvas_px_le: "canvas_px v \<le> v"
  by (simp add: canvas_px_def)

lemma canvas_px_Ints: "v \<in> \<int> \<Longrightarrow> canvas_px v = v"
  by (auto simp: canvas_px_def elim: Ints_cases)

lemma region_ok_ratio_field [simp]: "region_ok (s\<lparr> aspectRatio := r \<rparr>) = region_ok s"
  by (simp add: region_ok_def)

lemma ratio_shrinks_width:
  assumes "0 < h" and "js_quot_gt w h r"
  shows "h * r \<le> w"
  using assms by (simp add: js_quot_gt_def field_simps split: if_splits)

lemma ratio_shrinks_height:
  assumes "0 < h" and "0 < w" and "r \<noteq> 0" and "\<not> js_quot_gt w h r"
  shows "w / r \<le> h"
proof -
  from assms have le: "w / h \<le> r" by (simp add: js_quot_gt_def)
  have "0 < w / h" using assms by simp
  with le have rpos: "0 < r" by linarith
  from le have "w \<le> r * h" using assms(1) by (simp add: field_simps)
  then show ?thesis using rpos by (simp add: field_simps)
qed




subsection \<open>Each handler keeps a valid region valid\<close>

lemma open_region_ok:
  assumes "originalImage s = Some img"
    and "60 \<le> canvas_px (canvasWidth (openCropModal iw ih s))"
    and "60 \<le> canvas_px (canvasHeight (openCropModal iw ih s))"
  shows "region_ok (openCropModal iw ih s)"
proof -
  let ?s = "openCropModal iw ih s"
  have w: "crop_width ?s = canvas_px (canvasWidth ?s) - 40"
    and h: "crop_height ?s = canvas_px (canvasHeight ?s) - 40"
    and x: "crop_x ?s = 20" and y: "crop_y ?s = 20"
    using assms(1) by (simp_all add: openCropModal_def Let_def)
  show ?thesis
    unfolding region_ok_def w h x y
    using assms(2,3) canvas_px_le [of "canvasWidth ?s"] canvas_px_le [of "canvasHeight ?s"]
    by linarith
qed

lemma constrain_shrunk_width:
  assumes "region_ok s" and "w' \<le> crop_width s"
  shows "region_ok (constrainCropBox (s\<lparr> crop_width := w' \<rparr>))"
  using assms by (auto simp: region_ok_def constrainCropBox_def Let_def min_def max_def)

lemma constrain_shrunk_height:
  assumes "region_ok s" and "h' \<le> crop_height s"
  shows "region_ok (constrainCropBox (s\<lparr> crop_height := h' \<rparr>))"
  using assms by (auto simp: region_ok_def constrainCropBox_def Let_def min_def max_def)

lemma setAspectRatio_region_ok:
  assumes "region_ok s"
  shows "region_ok (setAspectRatio ratio s)"
proof (cases ratio)
  case None
  then show ?thesis using assms by (simp add: setAspectRatio_def)
next
  case (Some r)
  let ?s1 = "s\<lparr> aspectRatio := Some r \<rparr>"
  have ok1: "region_ok ?s1" using assms by simp
  have hpos: "0 < crop_height ?s1" and wpos: "0 < crop_width ?s1"
    using assms by (simp_all add: region_ok_def)
  show ?thesis
  proof (cases "r = 0")
    case True
    then show ?thesis using Some assms by (simp add: setAspectRatio_def)
  next
    case False
    show ?thesis
    proof (cases "js_quot_gt (crop_width ?s1) (crop_height ?s1) r")
      case True
      then have "crop_height ?s1 * r \<le> crop_width ?s1"
        using hpos ratio_shrinks_width by blast
      then have "region_ok (constrainCropBox (?s1\<lparr> crop_width := crop_height ?s1 * r \<rparr>))"
        using ok1 constrain_shrunk_width by blast
      then show ?thesis using Some False True by (simp add: setAspectRatio_def Let_def)
    next
      case nt: False
      then have "crop_width ?s1 / r \<le> crop_height ?s1"
        using hpos wpos False ratio_shrinks_height by blast
      then have "region_ok (constrainCropBox (?s1\<lparr> crop_height := crop_width ?s1 / r \<rparr>))"
        using ok1 constrain_shrunk_height by blast
      then show ?thesis using Some False nt by (simp add: setAspectRatio_def Let_def)
    qed
  qed
qed

lemma mouseDown_region_ok:
  "region_ok s \<Longrightarrow> region_ok (handleCropMouseDown t cx cy s)"
  by (cases t) (simp_all add: handleCropMouseDown_def region_ok_def Let_def)

lemma mouseUp_region_ok:
  "region_ok s \<Longrightarrow> region_ok (handleCropMouseUp s)"
  by (simp add: handleCropMouseUp_def region_ok_def)

lemma mouseMove_region_ok:
  assumes "region_ok s"
  shows "region_ok (handleCropMouseMove cx cy s)"
proof (cases "isDragging s")
  case False
  then show ?thesis using assms by (simp add: handleCropMouseMove_def)
next
  case True
  show ?thesis
  proof (cases "dragType s")
    case None
    then show ?thesis using assms True by (simp add: handleCropMouseMove_def Let_def)
  next
    case (Some d)
    show ?thesis
    proof (cases "d = ''move''")
      case mv: True
      then show ?thesis
        using assms True Some
        by (auto simp: handleCropMouseMove_def Let_def region_ok_def min_def max_def)
    next
      case rs: False
      obtain nx ny nw nh where
        c: "resize_candidate d (cx - startMouseX s) (cy - startMouseY s) s = (nx, ny, nw, nh)"
        by (metis prod_cases4)
      show ?thesis
        using assms True Some rs c
        by (auto simp: handleCropMouseMove_def Let_def region_ok_def accept_x_def accept_y_def)
    qed
  qed
qed

lemma crop_step_region_ok: "region_ok s \<Longrightarrow> region_ok (crop_step e s)"
  by (cases e)
    (simp_all add: setAspectRatio_region_ok mouseDown_region_ok mouseMove_region_ok
      mouseUp_region_ok)

lemma run_events_region_ok: "region_ok s \<Longrightarrow> region_ok (run_events evs s)"
  unfolding run_events_def by (induction evs arbitrary: s) (simp_all add: crop_step_region_ok)

text \<open>A resize candidate that passes both size floors has the target ratio.\<close>

lemma candidate_ratio:
  assumes r: "r \<noteq> 0" and ar: "aspectRatio s = Some r"
    and c: "resize_candidate d dx dy s = (nx, ny, nw, nh)"
    and w: "20 \<le> nw" and h: "20 \<le> nh"
  shows "nw / nh = r"
proof -
  have nz: "nw \<noteq> 0" "nh \<noteq> 0" using w h by auto
  from c ar r have "nh = nw / r \<or> nw = nh * r"
    by (auto simp: resize_candidate_def Let_def split: if_splits)
  then show ?thesis
    using nz r by (auto simp: field_simps)
qed

subsection \<open>A session worked through\<close>

text \<open>
  An 800 by 600 image in a 2000 by 2000 window is shown at scale 1. The steps below open
  the editor, choose the ratio 1:1, press the south-east handle and move the pointer.
\<close>

lemma demo_open:
  "openCropModal 2000 2000
      (initial_state\<lparr> originalImage := Some \<lparr> img_width = 800, img_height = 600 \<rparr> \<rparr>)
   = \<lparr> originalImage = Some \<lparr> img_width = 800, img_height = 600 \<rparr>,
       crop_x = 20, crop_y = 20, crop_width = 760, crop_height = 560,
       crop_scale = 1, aspectRatio = None, isDragging = False, dragType = None,
       startMouseX = 0, startMouseY = 0, startX = 0, startY = 0,
       startWidth = 0, startHeight = 0, canvasWidth = 800, canvasHeight = 600 \<rparr>"
  by (simp add: openCropModal_def initial_state_def canvas_px_def Let_def)

lemma demo_ratio:
  "setAspectRatio (Some 1)
     \<lparr> originalImage = Some \<lparr> img_width = 800, img_height = 600 \<rparr>,
       crop_x = 20, crop_y = 20, crop_width = 760, crop_height = 560,
       crop_scale = 1, aspectRatio = None, isDragging = False, dragType = None,
       startMouseX = 0, startMouseY = 0, startX = 0, startY = 0,
       startWidth = 0, startHeight = 0, canvasWidth = 800, canvasHeight = 600 \<rparr>
   = \<lparr> originalImage = Some \<lparr> img_width = 800, img_height = 600 \<rparr>,
       crop_x = 20, crop_y = 20, crop_width = 560, crop_height = 560,
       crop_scale = 1, aspectRatio = Some 1, isDragging = False, dragType = None,
       startMouseX = 0, startMouseY = 0, startX = 0, startY = 0,
       startWidth = 0, startHeight = 0, canvasWidth = 800, canvasHeight = 600 \<rparr>"
  by (simp add: setAspectRatio_def js_quot_gt_def constrainCropBox_def Let_def)

lemma demo_down:
  "handleCropMouseDown (CropHandle (Some ''se'')) 0 0
     \<lparr> originalImage = Some \<lparr> img_width = 800, img_height = 600 \<rparr>,
       crop_x = 20, crop_y = 20, crop_width = 560, crop_height = 560,
       crop_scale = 1, aspectRatio = Some 1, isDragging = False, dragType = None,
       startMouseX = 0, startMouseY = 0, startX = 0, startY = 0,
       startWidth = 0, startHeight = 0, canvasWidth = 800, canvasHeight = 600 \<rparr>
   = \<lparr> originalImage = Some \<lparr> img_width = 800, img_height = 600 \<rparr>,
       crop_x = 20, crop_y = 20, crop_width = 560, crop_height = 560,
       crop_scale = 1, aspectRatio = Some 1, isDragging = True, dragType = Some ''se'',
       startMouseX = 0, startMouseY = 0, startX = 20, startY = 20,
       startWidth = 560, startHeight = 560, canvasWidth = 800, canvasHeight = 600 \<rparr>"
  by (simp add: handleCropMouseDown_def)

lemma demo_candidate:
  "resize_candidate ''se'' dx dx
     \<lparr> originalImage = Some \<lparr> img_width = 800, img_height = 600 \<rparr>,
       crop_x = 20, crop_y = 20, crop_width = 560, crop_height = 560,
       crop_scale = 1, aspectRatio = Some 1, isDragging = True, dragType = Some ''se'',
       startMouseX = 0, startMouseY = 0, startX = 20, startY = 20,
       startWidth = 560, startHeight = 560, canvasWidth = 800, canvasHeight = 600 \<rparr>
   = (20, 20, max 20 (560 + dx), max 20 (560 + dx))"
  by (simp add: resize_candidate_def str_includes_def js_quot_gt_def Let_def)

lemma demo_move:
  "handleCropMouseMove 100 100
     \<lparr> originalImage = Some \<lparr> img_width = 800, img_height = 600 \<rparr>,
       crop_x = 20, crop_y = 20, crop_width = 560, crop_height = 560,
       crop_scale = 1, aspectRatio = Some 1, isDragging = True, dragType = Some ''se'',
       startMouseX = 0, startMouseY = 0, startX = 20, startY = 20,
       startWidth = 560, startHeight = 560, canvasWidth = 800, canvasHeight = 600 \<rparr>
   = \<lparr> originalImage = Some \<lparr> img_width = 800, img_height = 600 \<rparr>,
       crop_x = 20, crop_y = 20, crop_width = 660, crop_height = 560,
       crop_scale = 1, aspectRatio = Some 1, isDragging = True, dragType = Some ''se'',
       startMouseX = 0, startMouseY = 0, startX = 20, startY = 20,
       startWidth = 560, startHeight = 560, canvasWidth = 800, canvasHeight = 600 \<rparr>"
  by (simp add: handleCropMouseMove_def demo_candidate accept_x_def accept_y_def)

subsection \<open>The region invariant\<close>

text \<open>
  C1, as stated: every state reachable by opening a session, setting an aspect ratio and
  drag updates satisfies \<open>0 \<le> x\<close>, \<open>0 \<le> y\<close>, \<open>x + width \<le> bounds.width\<close>,
  \<open>y + height \<le> bounds.height\<close>, \<open>width \<ge> 20\<close> and \<open>height \<ge> 20\<close>, also for the region
  seeded on an image of any natural size. This fails for a small image: a 50 by 50 image
  is shown at scale 1 and the seeded region is 10 wide.
\<close>

theorem region_invariant_counterexample:
  "crop_width (run_events []
       (openCropModal 2000 2000
          (initial_state\<lparr> originalImage := Some \<lparr> img_width = 50, img_height = 50 \<rparr> \<rparr>))) = 10
   \<and> \<not> region_ok (run_events []
       (openCropModal 2000 2000
          (initial_state\<lparr> originalImage := Some \<lparr> img_width = 50, img_height = 50 \<rparr> \<rparr>)))"
  by (simp add: run_events_def openCropModal_def initial_state_def canvas_px_def region_ok_def
      Let_def)

text \<open>
  C1, as amended: when a session opens on an image whose canvas is at least 60 pixels
  wide and 60 pixels high, the seeded region and every state reached from it by any
  sequence of ratio choices, mouse-down, mouse-move and mouse-up events satisfies the six
  inequalities.
\<close>

theorem region_invariant:
  assumes "originalImage s = Some img"
    and "0 < img_width img" and "0 < img_height img"
    and "60 \<le> canvas_px (canvasWidth (openCropModal innerWidth innerHeight s))"
    and "60 \<le> canvas_px (canvasHeight (openCropModal innerWidth innerHeight s))"
  shows "region_ok (run_events evs (openCropModal innerWidth innerHeight s))"
  using assms open_region_ok run_events_region_ok by blast

theorem region_invariant_witness:
  "region_ok (run_events
      [RatioClick (Some 1), MouseDown (CropHandle (Some ''se'')) 0 0, MouseMove 100 100, MouseUp]
      (openCropModal 2000 2000
        (initial_state\<lparr> originalImage := Some \<lparr> img_width = 800, img_height = 600 \<rparr> \<rparr>)))"
proof -
  have h1: "originalImage
      (initial_state\<lparr> originalImage := Some \<lparr> img_width = 800, img_height = 600 \<rparr> \<rparr>)
     = Some \<lparr> img_width = 800, img_height = 600 \<rparr>"
    by simp
  have h2: "0 < img_width \<lparr> img_width = 800, img_height = 600 \<rparr>"
    and h3: "0 < img_height \<lparr> img_width = 800, img_height = 600 \<rparr>"
    by simp_all
  have h4: "60 \<le> canvas_px (canvasWidth (openCropModal 2000 2000
        (initial_state\<lparr> originalImage := Some \<lparr> img_width = 800, img_height = 600 \<rparr> \<rparr>)))"
    and h5: "60 \<le> canvas_px (canvasHeight (openCropModal 2000 2000
        (initial_state\<lparr> originalImage := Some \<lparr> img_width = 800, img_height = 600 \<rparr> \<rparr>)))"
    by (simp_all add: demo_open canvas_px_def)
  show ?thesis
    by (rule region_invariant [OF h1 h2 h3 h4 h5])
qed

subsection \<open>The aspect ratio under drag updates\<close>

text \<open>
  C2, as stated: for every aspect ratio \<open>r > 0\<close> and every sequence of drag updates, after
  each update \<open>width / height = r\<close>. This fails when one axis of a resize is accepted and
  the other rejected: with ratio 1 on the 560 by 560 region at (20, 20) inside 800 by 600,
  dragging the south-east handle by (100, 100) gives the candidate 660 by 660; the width
  fits and is taken, the height would end at 680 > 600 and is kept at 560.
\<close>

theorem drag_ratio_counterexample:
  "aspectRatio (run_events
        [RatioClick (Some 1), MouseDown (CropHandle (Some ''se'')) 0 0, MouseMove 100 100]
        (openCropModal 2000 2000
          (initial_state\<lparr> originalImage := Some \<lparr> img_width = 800, img_height = 600 \<rparr> \<rparr>)))
     = Some 1
   \<and> crop_width (run_events
        [RatioClick (Some 1), MouseDown (CropHandle (Some ''se'')) 0 0, MouseMove 100 100]
        (openCropModal 2000 2000
          (initial_state\<lparr> originalImage := Some \<lparr> img_width = 800, img_height = 600 \<rparr> \<rparr>)))
     = 660
   \<and> crop_height (run_events
        [RatioClick (Some 1), MouseDown (CropHandle (Some ''se'')) 0 0, MouseMove 100 100]
        (openCropModal 2000 2000
          (initial_state\<lparr> originalImage := Some \<lparr> img_width = 800, img_height = 600 \<rparr> \<rparr>)))
     = 560"
  by (simp add: run_events_def demo_open demo_ratio demo_down demo_move)

text \<open>
  C2, as amended: with an aspect ratio \<open>r > 0\<close> set, a drag update in translate mode
  leaves the width and the height as they were; a resize update whose candidate is
  accepted on both axes (lines 548 and 552) leaves the region with the candidate's width
  and height, and \<open>width / height = r\<close> exactly; a resize update whose candidate is
  rejected on both axes leaves the state as it was.
\<close>

theorem drag_update_ratio:
  assumes "isDragging s" and "dragType s = Some d"
    and "aspectRatio s = Some r" and "0 < r"
  shows "(d = ''move'' \<longrightarrow>
            crop_width (handleCropMouseMove clientX clientY s) = crop_width s
          \<and> crop_height (handleCropMouseMove clientX clientY s) = crop_height s)
       \<and> (d \<noteq> ''move''
          \<and> resize_candidate d (clientX - startMouseX s) (clientY - startMouseY s) s
               = (newX, newY, newW, newH) \<longrightarrow>
            (accept_x s newX newW \<and> accept_y s newY newH \<longrightarrow>
                crop_width (handleCropMouseMove clientX clientY s) = newW
              \<and> crop_height (handleCropMouseMove clientX clientY s) = newH
              \<and> crop_width (handleCropMouseMove clientX clientY s)
                  / crop_height (handleCropMouseMove clientX clientY s) = r)
          \<and> (\<not> accept_x s newX newW \<and> \<not> accept_y s newY newH \<longrightarrow>
                handleCropMouseMove clientX clientY s = s))"
proof (intro conjI impI)
  assume "d = ''move''"
  then show "crop_width (handleCropMouseMove clientX clientY s) = crop_width s"
    and "crop_height (handleCropMouseMove clientX clientY s) = crop_height s"
    using assms by (simp_all add: handleCropMouseMove_def Let_def)
next
  assume c: "d \<noteq> ''move''
      \<and> resize_candidate d (clientX - startMouseX s) (clientY - startMouseY s) s
           = (newX, newY, newW, newH)"
  assume a: "accept_x s newX newW \<and> accept_y s newY newH"
  from c have cand: "resize_candidate d (clientX - startMouseX s) (clientY - startMouseY s) s
      = (newX, newY, newW, newH)"
    by (rule conjunct2)
  from a have big: "20 \<le> newW" "20 \<le> newH"
    by (simp_all add: accept_x_def accept_y_def)
  from assms(4) have nz: "r \<noteq> 0"
    by simp
  have q: "newW / newH = r"
    by (rule candidate_ratio [OF nz assms(3) cand big])
  show "crop_width (handleCropMouseMove clientX clientY s) = newW"
    and "crop_height (handleCropMouseMove clientX clientY s) = newH"
    using assms c a by (simp_all add: handleCropMouseMove_def Let_def)
  then show "crop_width (handleCropMouseMove clientX clientY s)
      / crop_height (handleCropMouseMove clientX clientY s) = r"
    using q by simp
next
  assume c: "d \<noteq> ''move''
      \<and> resize_candidate d (clientX - startMouseX s) (clientY - startMouseY s) s
           = (newX, newY, newW, newH)"
  assume "\<not> accept_x s newX newW \<and> \<not> accept_y s newY newH"
  then show "handleCropMouseMove clientX clientY s = s"
    using assms c by (simp add: handleCropMouseMove_def Let_def)
qed

text \<open>
  The witness: the 560 by 560 region with ratio 1 in the 800 by 600 session, moved as a
  whole, resized from the south-east handle by (10, 10), which is accepted, and by
  (300, 300), which is rejected on both axes.
\<close>

theorem drag_update_ratio_witness:
  "crop_width (handleCropMouseMove 10 10
     \<lparr> originalImage = Some \<lparr> img_width = 800, img_height = 600 \<rparr>,
       crop_x = 20, crop_y = 20, crop_width = 560, crop_height = 560,
       crop_scale = 1, aspectRatio = Some 1, isDragging = True, dragType = Some ''move'',
       startMouseX = 0, startMouseY = 0, startX = 20, startY = 20,
       startWidth = 560, startHeight = 560, canvasWidth = 800, canvasHeight = 600 \<rparr>) = 560
   \<and> crop_width (handleCropMouseMove 10 10
     \<lparr> originalImage = Some \<lparr> img_width = 800, img_height = 600 \<rparr>,
       crop_x = 20, crop_y = 20, crop_width = 560, crop_height = 560,
       crop_scale = 1, aspectRatio = Some 1, isDragging = True, dragType = Some ''se'',
       startMouseX = 0, startMouseY = 0, startX = 20, startY = 20,
       startWidth = 560, startHeight = 560, canvasWidth = 800, canvasHeight = 600 \<rparr>) = 570
   \<and> crop_width (handleCropMouseMove 10 10
     \<lparr> originalImage = Some \<lparr> img_width = 800, img_height = 600 \<rparr>,
       crop_x = 20, crop_y = 20, crop_width = 560, crop_height = 560,
       crop_scale = 1, aspectRatio = Some 1, isDragging = True, dragType = Some ''se'',
       startMouseX = 0, startMouseY = 0, startX = 20, startY = 20,
       startWidth = 560, startHeight = 560, canvasWidth = 800, canvasHeight = 600 \<rparr>)
     / crop_height (handleCropMouseMove 10 10
     \<lparr> originalImage = Some \<lparr> img_width = 800, img_height = 600 \<rparr>,
       crop_x = 20, crop_y = 20, crop_width = 560, crop_height = 560,
       crop_scale = 1, aspectRatio = Some 1, isDragging = True, dragType = Some ''se'',
       startMouseX = 0, startMouseY = 0, startX = 20, startY = 20,
       startWidth = 560, startHeight = 560, canvasWidth = 800, canvasHeight = 600 \<rparr>) = 1
   \<and> crop_width (handleCropMouseMove 300 300
     \<lparr> originalImage = Some \<lparr> img_width = 800, img_height = 600 \<rparr>,
       crop_x = 20, crop_y = 20, crop_width = 560, crop_height = 560,
       crop_scale = 1, aspectRatio = Some 1, isDragging = True, dragType = Some ''se'',
       startMouseX = 0, startMouseY = 0, startX = 20, startY = 20,
       startWidth = 560, startHeight = 560, canvasWidth = 800, canvasHeight = 600 \<rparr>) = 560"
proof -
  let ?m = "\<lparr> originalImage = Some \<lparr> img_width = 800, img_height = 600 \<rparr>,
       crop_x = 20, crop_y = 20, crop_width = 560, crop_height = 560,
       crop_scale = 1, aspectRatio = Some 1, isDragging = True, dragType = Some ''move'',
       startMouseX = 0, startMouseY = 0, startX = 20, startY = 20,
       startWidth = 560, startHeight = 560, canvasWidth = 800, canvasHeight = 600 \<rparr>"
  let ?s = "\<lparr> originalImage = Some \<lparr> img_width = 800, img_height = 600 \<rparr>,
       crop_x = 20, crop_y = 20, crop_width = 560, crop_height = 560,
       crop_scale = 1, aspectRatio = Some 1, isDragging = True, dragType = Some ''se'',
       startMouseX = 0, startMouseY = 0, startX = 20, startY = 20,
       startWidth = 560, startHeight = 560, canvasWidth = 800, canvasHeight = 600 \<rparr>"
  have m1: "isDragging ?m" and m2: "dragType ?m = Some ''move''"
    and m3: "aspectRatio ?m = Some 1"
    and s1: "isDragging ?s" and s2: "dragType ?s = Some ''se''"
    and s3: "aspectRatio ?s = Some 1" and r: "(0::real) < 1"
    by simp_all
  have moved: "crop_width (handleCropMouseMove 10 10 ?m) = crop_width ?m"
    using drag_update_ratio [OF m1 m2 m3 r, of 10 10, THEN conjunct1] by simp
  have c1: "''se'' \<noteq> ''move''
      \<and> resize_candidate ''se'' (10 - startMouseX ?s) (10 - startMouseY ?s) ?s
          = (20, 20, 570, 570)"
    by (simp add: demo_candidate)
  have a1: "accept_x ?s 20 570 \<and> accept_y ?s 20 570"
    by (simp add: accept_x_def accept_y_def)
  note both = drag_update_ratio [OF s1 s2 s3 r, of 10 10 20 20 570 570,
      THEN conjunct2, THEN mp, OF c1, THEN conjunct1, THEN mp, OF a1]
  have c2: "''se'' \<noteq> ''move''
      \<and> resize_candidate ''se'' (300 - startMouseX ?s) (300 - startMouseY ?s) ?s
          = (20, 20, 860, 860)"
    by (simp add: demo_candidate)
  have a2: "\<not> accept_x ?s 20 860 \<and> \<not> accept_y ?s 20 860"
    by (simp add: accept_x_def accept_y_def)
  note none = drag_update_ratio [OF s1 s2 s3 r, of 300 300 20 20 860 860,
      THEN conjunct2, THEN mp, OF c2, THEN conjunct2, THEN mp, OF a2]
  from moved both none show ?thesis by simp
qed

subsection \<open>Committing\<close>

text \<open>
  C3, as stated: the commit fails, reporting "region too small", whenever the
  natural-pixel width or height is below 10. Line 573 returns without showing anything.
  In a 2000 by 2000 window a 2800 by 88 image is shown at scale 1/2 and the seeded region
  is 4 high, 8 pixels of the image: the commit leaves the state as it was, passes no
  message to \<^verbatim>\<open>alert\<close>, throws nothing and draws nothing.
\<close>

theorem applyCrop_report_counterexample:
  "crop_height (openCropModal 2000 2000
      (initial_state\<lparr> originalImage := Some \<lparr> img_width = 2800, img_height = 88 \<rparr> \<rparr>))
     / crop_scale (openCropModal 2000 2000
      (initial_state\<lparr> originalImage := Some \<lparr> img_width = 2800, img_height = 88 \<rparr> \<rparr>)) = 8
   \<and> snd (applyCrop (openCropModal 2000 2000
      (initial_state\<lparr> originalImage := Some \<lparr> img_width = 2800, img_height = 88 \<rparr> \<rparr>)))
     = \<lparr> alerted = [], raised = False, drawn = None \<rparr>"
  by (simp add: openCropModal_def initial_state_def canvas_px_def applyCrop_def Let_def)

text \<open>
  C3, as amended: for a scale other than zero, whenever the natural-pixel width or
  height, \<open>width / scale\<close> or \<open>height / scale\<close>, is below 10, the commit returns without
  any effect: the state, with the source image and the crop region, is unchanged, no
  message is shown, nothing is thrown and nothing is drawn. When both are at least 10, so
  also at exactly 10, and an image is loaded, the commit shows no message, throws nothing
  and draws with the crop command \<open>left = x / scale\<close>, \<open>top = y / scale\<close>,
  \<open>width = width / scale\<close> and \<open>height = height / scale\<close>.
\<close>

theorem applyCrop_floor:
  assumes "crop_scale s \<noteq> 0"
  shows "(crop_width s / crop_scale s < 10 \<or> crop_height s / crop_scale s < 10
            \<longrightarrow> applyCrop s = (s, \<lparr> alerted = [], raised = False, drawn = None \<rparr>))
       \<and> (10 \<le> crop_width s / crop_scale s \<and> 10 \<le> crop_height s / crop_scale s
            \<and> originalImage s \<noteq> None
            \<longrightarrow> snd (applyCrop s) =
                  \<lparr> alerted = [], raised = False,
                    drawn = Some \<lparr> cmd_left = crop_x s / crop_scale s,
                                   cmd_top = crop_y s / crop_scale s,
                                   cmd_width = crop_width s / crop_scale s,
                                   cmd_height = crop_height s / crop_scale s \<rparr> \<rparr>)"
  by (auto simp: applyCrop_def Let_def)

text \<open>
  The witness: in a 2000 by 2000 window an image 2800 wide is shown at scale 1/2. With a
  height of 88 pixels the canvas is 44 high and the seeded region 4 high, 8 pixels of the
  image; with a height of 90 the region is 5 high, exactly 10 pixels.
\<close>

lemma demo_open_low:
  "openCropModal 2000 2000
      (initial_state\<lparr> originalImage := Some \<lparr> img_width = 2800, img_height = 88 \<rparr> \<rparr>)
   = \<lparr> originalImage = Some \<lparr> img_width = 2800, img_height = 88 \<rparr>,
       crop_x = 20, crop_y = 20, crop_width = 1360, crop_height = 4,
       crop_scale = 1 / 2, aspectRatio = None, isDragging = False, dragType = None,
       startMouseX = 0, startMouseY = 0, startX = 0, startY = 0,
       startWidth = 0, startHeight = 0, canvasWidth = 1400, canvasHeight = 44 \<rparr>"
  by (simp add: openCropModal_def initial_state_def canvas_px_def Let_def)

lemma demo_open_ten:
  "openCropModal 2000 2000
      (initial_state\<lparr> originalImage := Some \<lparr> img_width = 2800, img_height = 90 \<rparr> \<rparr>)
   = \<lparr> originalImage = Some \<lparr> img_width = 2800, img_height = 90 \<rparr>,
       crop_x = 20, crop_y = 20, crop_width = 1360, crop_height = 5,
       crop_scale = 1 / 2, aspectRatio = None, isDragging = False, dragType = None,
       startMouseX = 0, startMouseY = 0, startX = 0, startY = 0,
       startWidth = 0, startHeight = 0, canvasWidth = 1400, canvasHeight = 45 \<rparr>"
  by (simp add: openCropModal_def initial_state_def canvas_px_def Let_def)

theorem applyCrop_floor_witness:
  "applyCrop (openCropModal 2000 2000
      (initial_state\<lparr> originalImage := Some \<lparr> img_width = 2800, img_height = 88 \<rparr> \<rparr>))
   = (openCropModal 2000 2000
        (initial_state\<lparr> originalImage := Some \<lparr> img_width = 2800, img_height = 88 \<rparr> \<rparr>),
      \<lparr> alerted = [], raised = False, drawn = None \<rparr>)
   \<and> snd (applyCrop (openCropModal 2000 2000
      (initial_state\<lparr> originalImage := Some \<lparr> img_width = 2800, img_height = 90 \<rparr> \<rparr>)))
   = \<lparr> alerted = [], raised = False,
       drawn = Some \<lparr> cmd_left = 40, cmd_top = 40, cmd_width = 2720, cmd_height = 10 \<rparr> \<rparr>"
proof -
  let ?a = "openCropModal 2000 2000
      (initial_state\<lparr> originalImage := Some \<lparr> img_width = 2800, img_height = 88 \<rparr> \<rparr>)"
  let ?b = "openCropModal 2000 2000
      (initial_state\<lparr> originalImage := Some \<lparr> img_width = 2800, img_height = 90 \<rparr> \<rparr>)"
  have a0: "crop_scale ?a \<noteq> 0" and b0: "crop_scale ?b \<noteq> 0"
    by (simp_all add: demo_open_low demo_open_ten)
  have a1: "crop_width ?a / crop_scale ?a < 10 \<or> crop_height ?a / crop_scale ?a < 10"
    by (simp add: demo_open_low)
  have b1: "10 \<le> crop_width ?b / crop_scale ?b \<and> 10 \<le> crop_height ?b / crop_scale ?b
      \<and> originalImage ?b \<noteq> None"
    by (simp add: demo_open_ten)
  have fails: "applyCrop ?a = (?a, \<lparr> alerted = [], raised = False, drawn = None \<rparr>)"
    using applyCrop_floor [OF a0, THEN conjunct1, THEN mp, OF a1] .
  have "snd (applyCrop ?b) =
      \<lparr> alerted = [], raised = False,
        drawn = Some \<lparr> cmd_left = crop_x ?b / crop_scale ?b,
                       cmd_top = crop_y ?b / crop_scale ?b,
                       cmd_width = crop_width ?b / crop_scale ?b,
                       cmd_height = crop_height ?b / crop_scale ?b \<rparr> \<rparr>"
    using applyCrop_floor [OF b0, THEN conjunct2, THEN mp, OF b1] .
  then have "snd (applyCrop ?b) =
      \<lparr> alerted = [], raised = False,
        drawn = Some \<lparr> cmd_left = 40, cmd_top = 40, cmd_width = 2720, cmd_height = 10 \<rparr> \<rparr>"
    by (simp add: demo_open_ten)
  with fails show ?thesis by (rule conjI)
qed

subsection \<open>Opening\<close>

text \<open>
  C4, as stated: the seeded region has the size \<open>(bounds.width - 40, bounds.height - 40)\<close>.
  The code subtracts the padding from the canvas element's attributes, which hold whole
  pixels. A 1400 by 901 image in a 1000 by 1000 window (maximum 700 by 500) is shown at
  scale 1/2 with bounds 700 by 450.5; the canvas is 450 high and the seeded height is
  410, not 410.5.
\<close>

theorem openCropModal_seed_counterexample:
  "canvasHeight (openCropModal 1000 1000
        (initial_state\<lparr> originalImage := Some \<lparr> img_width = 1400, img_height = 901 \<rparr> \<rparr>))
     - 40 = 410.5
   \<and> crop_height (openCropModal 1000 1000
        (initial_state\<lparr> originalImage := Some \<lparr> img_width = 1400, img_height = 901 \<rparr> \<rparr>))
     = 410"
  by (simp add: openCropModal_def initial_state_def canvas_px_def Let_def)

text \<open>
  C4, as amended: opening on an image of positive natural size with viewport maximum
  \<open>(maxW, maxH) = (0.7 * innerWidth, 0.5 * innerHeight)\<close> sets
  \<open>scale = min(maxW / naturalWidth, maxH / naturalHeight, 1)\<close>, never above 1, sets the
  bounds to the natural size times the scale, seeds the region at (20, 20) with the size
  of the canvas in whole pixels minus 40 on each axis, which is the bounds minus 40
  whenever the bounds are whole numbers, and sets the aspect ratio to free. For a 4000 by
  3000 image with viewport maximum 800 by 600 the scale is 0.2, the bounds are (800, 600)
  and the region is (20, 20, 760, 560).
\<close>

theorem openCropModal_seed:
  "(originalImage s = Some img \<and> 0 < img_width img \<and> 0 < img_height img \<longrightarrow>
     (let s' = openCropModal innerWidth innerHeight s;
          maxW = innerWidth * 0.7; maxH = innerHeight * 0.5
      in crop_scale s' = min (min (maxW / real (img_width img)) (maxH / real (img_height img))) 1
       \<and> crop_scale s' \<le> 1
       \<and> canvasWidth s' = real (img_width img) * crop_scale s'
       \<and> canvasHeight s' = real (img_height img) * crop_scale s'
       \<and> crop_x s' = 20 \<and> crop_y s' = 20
       \<and> crop_width s' = canvas_px (canvasWidth s') - 40
       \<and> crop_height s' = canvas_px (canvasHeight s') - 40
       \<and> (canvasWidth s' \<in> \<int> \<longrightarrow> crop_width s' = canvasWidth s' - 40)
       \<and> (canvasHeight s' \<in> \<int> \<longrightarrow> crop_height s' = canvasHeight s' - 40)
       \<and> aspectRatio s' = None))
   \<and> (originalImage t = Some \<lparr> img_width = 4000, img_height = 3000 \<rparr>
        \<and> w * 0.7 = 800 \<and> h * 0.5 = 600 \<longrightarrow>
       (let t' = openCropModal w h t
        in crop_scale t' = 0.2 \<and> canvasWidth t' = 800 \<and> canvasHeight t' = 600
         \<and> crop_x t' = 20 \<and> crop_y t' = 20 \<and> crop_width t' = 760 \<and> crop_height t' = 560
         \<and> aspectRatio t' = None))"
proof (intro conjI impI)
  assume a: "originalImage s = Some img \<and> 0 < img_width img \<and> 0 < img_height img"
  show "let s' = openCropModal innerWidth innerHeight s;
          maxW = innerWidth * 0.7; maxH = innerHeight * 0.5
      in crop_scale s' = min (min (maxW / real (img_width img)) (maxH / real (img_height img))) 1
       \<and> crop_scale s' \<le> 1
       \<and> canvasWidth s' = real (img_width img) * crop_scale s'
       \<and> canvasHeight s' = real (img_height img) * crop_scale s'
       \<and> crop_x s' = 20 \<and> crop_y s' = 20
       \<and> crop_width s' = canvas_px (canvasWidth s') - 40
       \<and> crop_height s' = canvas_px (canvasHeight s') - 40
       \<and> (canvasWidth s' \<in> \<int> \<longrightarrow> crop_width s' = canvasWidth s' - 40)
       \<and> (canvasHeight s' \<in> \<int> \<longrightarrow> crop_height s' = canvasHeight s' - 40)
       \<and> aspectRatio s' = None"
    using a by (simp add: openCropModal_def Let_def canvas_px_Ints)
next
  assume b: "originalImage t = Some \<lparr> img_width = 4000, img_height = 3000 \<rparr>
        \<and> w * 0.7 = 800 \<and> h * 0.5 = 600"
  show "let t' = openCropModal w h t
        in crop_scale t' = 0.2 \<and> canvasWidth t' = 800 \<and> canvasHeight t' = 600
         \<and> crop_x t' = 20 \<and> crop_y t' = 20 \<and> crop_width t' = 760 \<and> crop_height t' = 560
         \<and> aspectRatio t' = None"
    using b by (simp add: openCropModal_def Let_def canvas_px_def)
qed

text \<open>
  The witness: the general part at the image of the counterexample, the scenario in a
  window of 8000/7 by 1200, whose maximum is 800 by 600.
\<close>

theorem openCropModal_seed_witness:
  "crop_scale (openCropModal 1000 1000
      (initial_state\<lparr> originalImage := Some \<lparr> img_width = 1400, img_height = 901 \<rparr> \<rparr>)) \<le> 1
   \<and> crop_x (openCropModal 1000 1000
      (initial_state\<lparr> originalImage := Some \<lparr> img_width = 1400, img_height = 901 \<rparr> \<rparr>)) = 20
   \<and> crop_width (openCropModal (8000 / 7) 1200
      (initial_state\<lparr> originalImage := Some \<lparr> img_width = 4000, img_height = 3000 \<rparr> \<rparr>)) = 760
   \<and> crop_height (openCropModal (8000 / 7) 1200
      (initial_state\<lparr> originalImage := Some \<lparr> img_width = 4000, img_height = 3000 \<rparr> \<rparr>)) = 560"
proof -
  let ?s = "initial_state\<lparr> originalImage := Some \<lparr> img_width = 1400, img_height = 901 \<rparr> \<rparr>"
  let ?t = "initial_state\<lparr> originalImage := Some \<lparr> img_width = 4000, img_height = 3000 \<rparr> \<rparr>"
  have h1: "originalImage ?s = Some \<lparr> img_width = 1400, img_height = 901 \<rparr>
      \<and> 0 < img_width \<lparr> img_width = 1400, img_height = 901 \<rparr>
      \<and> 0 < img_height \<lparr> img_width = 1400, img_height = 901 \<rparr>"
    by simp
  have h2: "originalImage ?t = Some \<lparr> img_width = 4000, img_height = 3000 \<rparr>
      \<and> (8000 / 7) * 0.7 = (800::real) \<and> 1200 * 0.5 = (600::real)"
    by simp
  note inst = openCropModal_seed [of ?s "\<lparr> img_width = 1400, img_height = 901 \<rparr>" 1000 1000
      ?t "8000 / 7" 1200]
  from inst [THEN conjunct1, THEN mp, OF h1] inst [THEN conjunct2, THEN mp, OF h2]
  show ?thesis
    by (simp add: Let_def)
qed

subsection \<open>Setting the aspect ratio\<close>






subsection \<open>Translating\<close>

text \<open>
  C6: in translate mode, for a region no larger than the bounds, an update with pointer
  deltas \<open>(dx, dy)\<close> puts the origin at the clamp of \<open>(startX + dx, startY + dy)\<close> to
  \<open>[0, canvasWidth - width] \<times> [0, canvasHeight - height]\<close>, one coordinate at a time, and
  leaves the size unchanged.
\<close>

theorem translate_clamps_origin:
  assumes "isDragging s" and "dragType s = Some ''move''"
    and "crop_width s \<le> canvasWidth s" and "crop_height s \<le> canvasHeight s"
  shows "let s' = handleCropMouseMove clientX clientY s;
             dx = clientX - startMouseX s;
             dy = clientY - startMouseY s
         in crop_x s' = spec_clamp (startX s + dx) 0 (canvasWidth s - crop_width s)
          \<and> crop_y s' = spec_clamp (startY s + dy) 0 (canvasHeight s - crop_height s)
          \<and> 0 \<le> crop_x s' \<and> crop_x s' \<le> canvasWidth s - crop_width s
          \<and> 0 \<le> crop_y s' \<and> crop_y s' \<le> canvasHeight s - crop_height s
          \<and> crop_width s' = crop_width s \<and> crop_height s' = crop_height s"
  using assms
  by (simp add: handleCropMouseMove_def Let_def spec_clamp_def min_def max_def)

text \<open>
  The witness: the box of the 800 by 600 session, pressed at (5, 5), with the pointer
  moved to (1005, -45): the origin (1020, -30) is clamped to (40, 0).
\<close>

theorem translate_clamps_origin_witness:
  "crop_x (handleCropMouseMove 1005 (- 45)
     \<lparr> originalImage = Some \<lparr> img_width = 800, img_height = 600 \<rparr>,
       crop_x = 20, crop_y = 20, crop_width = 760, crop_height = 560,
       crop_scale = 1, aspectRatio = None, isDragging = True, dragType = Some ''move'',
       startMouseX = 5, startMouseY = 5, startX = 20, startY = 20,
       startWidth = 760, startHeight = 560, canvasWidth = 800, canvasHeight = 600 \<rparr>) = 40
   \<and> crop_y (handleCropMouseMove 1005 (- 45)
     \<lparr> originalImage = Some \<lparr> img_width = 800, img_height = 600 \<rparr>,
       crop_x = 20, crop_y = 20, crop_width = 760, crop_height = 560,
       crop_scale = 1, aspectRatio = None, isDragging = True, dragType = Some ''move'',
       startMouseX = 5, startMouseY = 5, startX = 20, startY = 20,
       startWidth = 760, startHeight = 560, canvasWidth = 800, canvasHeight = 600 \<rparr>) = 0"
proof -
  let ?s = "\<lparr> originalImage = Some \<lparr> img_width = 800, img_height = 600 \<rparr>,
       crop_x = 20, crop_y = 20, crop_width = 760, crop_height = 560,
       crop_scale = 1, aspectRatio = None, isDragging = True, dragType = Some ''move'',
       startMouseX = 5, startMouseY = 5, startX = 20, startY = 20,
       startWidth = 760, startHeight = 560, canvasWidth = 800, canvasHeight = 600 \<rparr>"
  have h1: "isDragging ?s" and h2: "dragType ?s = Some ''move''"
    and h3: "crop_width ?s \<le> canvasWidth ?s" and h4: "crop_height ?s \<le> canvasHeight ?s"
    by simp_all
  from translate_clamps_origin [OF h1 h2 h3 h4, of 1005 "- 45"]
  show ?thesis
    by (simp add: Let_def spec_clamp_def)
qed

section \<open>Properties of the watermark renderer\<close>

subsection \<open>Blank text\<close>

lemma dropWhile_all: "(\<forall>x \<in> set (dropWhile P t). P x) \<longleftrightarrow> (\<forall>x \<in> set t. P x)"
  by (induction t) auto

text \<open>The guard \<^verbatim>\<open>!text.trim()\<close> holds exactly for the strings of white space.\<close>

lemma trim_empty_iff: "trim t = [] \<longleftrightarrow> (\<forall>c \<in> set t. is_white_space c)"
  by (simp add: trim_def dropWhile_eq_Nil_conv dropWhile_all)

text \<open>
  C9: when the watermark text is empty or consists of white space only, applying the
  watermark returns the surface as it was, and the preview is the bare image: the canvas
  has the image's size, one \<^verbatim>\<open>drawImage\<close> on it, no text, and the drawing state of a fresh
  context (no alpha, shadow or rotation set, nothing saved).
\<close>

theorem blank_text_is_noop:
  assumes "\<forall>c \<in> set (wm_text st). is_white_space c"
  shows "applyWatermark measureText st c width height = Some c
       \<and> renderPreview measureText st (Some img) c0
           = Some \<lparr> cv_width = img_width img, cv_height = img_height img,
                    cur = default_drawing_state, saved = [],
                    surface = [DrawImage img 0 0] \<rparr>"
  using assms
  by (simp add: applyWatermark_def renderPreview_def trim_empty_iff resize_canvas_def
      drawImage_def Let_def)

text \<open>The witness: a space, a tab and a no-break space as text, on an 800 by 600 image.\<close>

theorem blank_text_is_noop_witness:
  "renderPreview (\<lambda>f t. 0)
        \<lparr> wm_text = [0x20, 0x9, 0xA0], fontSize = 48, opacity = 50,
          rotation = - 30, color = ''#ffffff'', position = ''center'', tile = False,
          tileSpacing = 100 \<rparr>
        (Some \<lparr> img_width = 800, img_height = 600 \<rparr>) (resize_canvas 300 150)
      = Some \<lparr> cv_width = 800, cv_height = 600, cur = default_drawing_state, saved = [],
               surface = [DrawImage \<lparr> img_width = 800, img_height = 600 \<rparr> 0 0] \<rparr>"
proof -
  have h: "\<forall>c \<in> set (wm_text \<lparr> wm_text = [0x20, 0x9, 0xA0], fontSize = 48, opacity = 50,
        rotation = - 30, color = ''#ffffff'', position = ''center'', tile = False,
        tileSpacing = 100 \<rparr>). is_white_space c"
    by (simp add: is_white_space_def)
  show ?thesis
    using blank_text_is_noop [OF h, of "\<lambda>f t. 0" "resize_canvas 300 150" 0 0
        "\<lparr> img_width = 800, img_height = 600 \<rparr>" "resize_canvas 300 150"]
    by simp
qed

text \<open>
  For comparison, the default text (the copyright sign, a space and 2024) at the centre
  anchor does draw: one \<^verbatim>\<open>fillText\<close> follows the image, and the state is restored after it.
\<close>

lemma default_text_is_drawn:
  "map_option (\<lambda>c. (length (surface c), cur c, saved c))
     (renderPreview (\<lambda>f t. 0)
        \<lparr> wm_text = [0xA9, 0x20, 0x32, 0x30, 0x32, 0x34], fontSize = 48, opacity = 50,
          rotation = - 30, color = ''#ffffff'', position = ''center'', tile = False,
          tileSpacing = 100 \<rparr>
        (Some \<lparr> img_width = 800, img_height = 600 \<rparr>) (resize_canvas 300 150))
   = Some (2, default_drawing_state, [])"
  by (simp add: renderPreview_def applyWatermark_def trim_def is_white_space_def
      resize_canvas_def drawImage_def ctx_save_def ctx_restore_def ctx_transform_def
      set_shadow_def fillText_def getPosition_def positions_def Let_def)

subsection \<open>The anchor lookup\<close>

text \<open>
  C10 says that every position name other than the nine anchors yields the centre
  \<open>(width / 2, height / 2)\<close>. The fallback \<^verbatim>\<open>|| positions.center\<close> is only reached when
  the property read is falsy; for a name that \<^verbatim>\<open>Object.prototype\<close> defines, such as
  \<^verbatim>\<open>toString\<close>, the read yields the inherited function and that is returned in place
  of a point.
\<close>

theorem getPosition_inherited_member:
  "getPosition ''toString'' 800 600 48 = Inherited ''toString''
   \<and> getPosition ''toString'' 800 600 48 \<noteq> Anchor \<lparr> pt_x = 800 / 2, pt_y = 600 / 2 \<rparr>"
  by (simp add: getPosition_def positions_def object_prototype_names_def Let_def)

text \<open>For every name that is neither an anchor nor inherited, the lookup does fall back to
  the centre.\<close>

lemma getPosition_fallback:
  assumes "pos \<notin> {''top-left'', ''top-center'', ''top-right'', ''middle-left'', ''center'',
                    ''middle-right'', ''bottom-left'', ''bottom-center'', ''bottom-right''}"
    and "pos \<notin> set object_prototype_names"
  shows "getPosition pos width height fsz = Anchor \<lparr> pt_x = width / 2, pt_y = height / 2 \<rparr>"
  using assms by (simp add: getPosition_def positions_def Let_def)

section \<open>Properties of the PDF tool\<close>

subsection \<open>A run whose output is larger than its input\<close>

lemma toFixed0_nonpos: "v < 0 \<Longrightarrow> toFixed0 v \<le> 0"
  by (simp add: toFixed0_def)

lemma savings_nonpos:
  assumes "originalSize s \<noteq> 0" and "originalSize s < compressedSize s"
  shows "toFixed0 ((1 - real (compressedSize s) / real (originalSize s)) * 100) \<le> 0"
proof -
  have "1 < real (compressedSize s) / real (originalSize s)"
    using assms by simp
  then have neg: "1 - real (compressedSize s) / real (originalSize s) < 0"
    by linarith
  have "(1 - real (compressedSize s) / real (originalSize s)) * 100 < 0"
  proof (rule mult_neg_pos)
    show "1 - real (compressedSize s) / real (originalSize s) < 0" by (rule neg)
    show "(0::real) < 100" by simp
  qed
  then show ?thesis by (rule toFixed0_nonpos)
qed

lemma showResults_larger:
  assumes "originalSize s < compressedSize s"
  shows "showResults s =
     s\<lparr> progressSection_hidden := True, resultsSection_hidden := False,
        el_originalSize := FormattedSize (originalSize s),
        el_compressedSize := FormattedSize (compressedSize s),
        resultTip_hidden := False,
        resultTip_text := (if compressionMode s = ''lossy'' then LossyTip else LosslessTip),
        savingsBadge :=
          (if originalSize s = 0 then LargerNotFinite
           else Larger \<bar>toFixed0 ((1 - real (compressedSize s) / real (originalSize s)) * 100)\<bar>),
        savingsBadge_background := ''var(--warning-color)'' \<rparr>"
proof (cases "originalSize s = 0")
  case True
  then show ?thesis by (simp add: showResults_def Let_def)
next
  case False
  then have "\<not> toFixed0 ((1 - real (compressedSize s) / real (originalSize s)) * 100) > 0"
    using assms savings_nonpos [of s] by simp
  then show ?thesis using False by (simp add: showResults_def Let_def)
qed

text \<open>
  C7: when a run on the selected file yields \<open>n\<close> bytes, more than the file has, the run
  ends on the result path: the results section is shown with the original and the
  compressed size, the badge reads \<^verbatim>\<open>% larger\<close> on the warning colour, the tip is
  visible, the blob of \<open>n\<close> bytes is kept in \<^verbatim>\<open>state.compressedBlob\<close>, the file stays
  selected, and nothing is passed to \<^verbatim>\<open>alert\<close>.
\<close>

theorem larger_output_is_shown:
  assumes "st_file s = Some f" and "\<not> isProcessing s"
    and "originalSize s = file_size f" and "file_size f < n"
  shows "let s' = compressPDF (LibBytes n) s
         in resultsSection_hidden s' = False
          \<and> progressSection_hidden s' = True
          \<and> el_originalSize s' = FormattedSize (file_size f)
          \<and> el_compressedSize s' = FormattedSize n
          \<and> savingsBadge s' =
              (if file_size f = 0 then LargerNotFinite
               else Larger \<bar>toFixed0 ((1 - real n / real (file_size f)) * 100)\<bar>)
          \<and> savingsBadge_background s' = ''var(--warning-color)''
          \<and> resultTip_hidden s' = False
          \<and> resultTip_text s' = (if compressionMode s = ''lossy'' then LossyTip else LosslessTip)
          \<and> compressedBlob s' = Some \<lparr> blob_size = n \<rparr>
          \<and> compressedSize s' = n
          \<and> st_file s' = Some f \<and> originalSize s' = file_size f
          \<and> alerts s' = alerts s
          \<and> isProcessing s' = False \<and> compressBtn_disabled s' = False"
proof -
  let ?s1 = "s\<lparr> isProcessing := True, settingsPanel_hidden := True,
                 progressSection_hidden := False, compressBtn_disabled := True \<rparr>"
  let ?s2 = "?s1\<lparr> compressedBlob := Some \<lparr> blob_size = n \<rparr>, compressedSize := n \<rparr>"
  have lt: "originalSize ?s2 < compressedSize ?s2"
    using assms by simp
  have run: "compressPDF (LibBytes n) s =
      (showResults ?s2)\<lparr> isProcessing := False, compressBtn_disabled := False \<rparr>"
    using assms by (simp add: compressPDF_def compressLossless_def compressLossy_def Let_def)
  show ?thesis
    unfolding run showResults_larger [OF lt] Let_def
    using assms by simp
qed

text \<open>The witness: a file of 1000 bytes, selected in lossy mode, comes back with 1200.\<close>

theorem larger_output_is_shown_witness:
  "savingsBadge (compressPDF (LibBytes 1200)
      \<lparr> st_file = Some \<lparr> file_name = ''a.pdf'', file_size = 1000,
                          file_type = ''application/pdf'' \<rparr>,
        compressedBlob = None, originalSize = 1000, compressedSize = 0,
        isProcessing = False, compressionMode = ''lossy'',
        dropZone_hidden = True, fileInfo_hidden = False, settingsPanel_hidden = False,
        progressSection_hidden = True, resultsSection_hidden = True,
        compressBtn_disabled = False, el_originalSize = NoSizeText,
        el_compressedSize = NoSizeText, savingsBadge = NoBadge,
        savingsBadge_background = [], resultTip_hidden = True, resultTip_text = NoTip,
        alerts = [] \<rparr>) = Larger 20
   \<and> alerts (compressPDF (LibBytes 1200)
      \<lparr> st_file = Some \<lparr> file_name = ''a.pdf'', file_size = 1000,
                          file_type = ''application/pdf'' \<rparr>,
        compressedBlob = None, originalSize = 1000, compressedSize = 0,
        isProcessing = False, compressionMode = ''lossy'',
        dropZone_hidden = True, fileInfo_hidden = False, settingsPanel_hidden = False,
        progressSection_hidden = True, resultsSection_hidden = True,
        compressBtn_disabled = False, el_originalSize = NoSizeText,
        el_compressedSize = NoSizeText, savingsBadge = NoBadge,
        savingsBadge_background = [], resultTip_hidden = True, resultTip_text = NoTip,
        alerts = [] \<rparr>) = []
   \<and> compressedBlob (compressPDF (LibBytes 1200)
      \<lparr> st_file = Some \<lparr> file_name = ''a.pdf'', file_size = 1000,
                          file_type = ''application/pdf'' \<rparr>,
        compressedBlob = None, originalSize = 1000, compressedSize = 0,
        isProcessing = False, compressionMode = ''lossy'',
        dropZone_hidden = True, fileInfo_hidden = False, settingsPanel_hidden = False,
        progressSection_hidden = True, resultsSection_hidden = True,
        compressBtn_disabled = False, el_originalSize = NoSizeText,
        el_compressedSize = NoSizeText, savingsBadge = NoBadge,
        savingsBadge_background = [], resultTip_hidden = True, resultTip_text = NoTip,
        alerts = [] \<rparr>) = Some \<lparr> blob_size = 1200 \<rparr>"
proof -
  let ?f = "\<lparr> file_name = ''a.pdf'', file_size = 1000, file_type = ''application/pdf'' \<rparr>"
  let ?s = "\<lparr> st_file = Some ?f,
        compressedBlob = None, originalSize = 1000, compressedSize = 0,
        isProcessing = False, compressionMode = ''lossy'',
        dropZone_hidden = True, fileInfo_hidden = False, settingsPanel_hidden = False,
        progressSection_hidden = True, resultsSection_hidden = True,
        compressBtn_disabled = False, el_originalSize = NoSizeText,
        el_compressedSize = NoSizeText, savingsBadge = NoBadge,
        savingsBadge_background = [], resultTip_hidden = True, resultTip_text = NoTip,
        alerts = [] \<rparr>"
  have h1: "st_file ?s = Some ?f" and h2: "\<not> isProcessing ?s"
    and h3: "originalSize ?s = file_size ?f" and h4: "file_size ?f < 1200"
    by simp_all
  have r: "toFixed0 ((1 - real 1200 / real (file_size ?f)) * 100) = - 20"
    by (simp add: toFixed0_def)
  from larger_output_is_shown [OF h1 h2 h3 h4]
  show ?thesis
    unfolding Let_def r by simp
qed

subsection \<open>Pages from images\<close>

lemma named_layout:
  assumes w: "0 < w" and h: "0 < h" and pw: "20 < pw" and ph: "20 < ph"
    and look: "map_of pageSizes name = Some (pw, ph)" and nf: "name \<noteq> ''fit''"
  shows "\<exists>l. image_layout name w h = Layout l \<and> spec_fitted pw ph w h l"
proof -
  define aw where "aw = pw - 20"
  define ah where "ah = ph - 20"
  define q where "q = real w / real h"
  have aw: "0 < aw" and ah: "0 < ah" and q: "0 < q"
    using assms by (simp_all add: aw_def ah_def q_def)
  define fw where "fw = (if q > aw / ah then aw else ah * q)"
  define fh where "fh = (if q > aw / ah then aw / q else ah)"
  define L where "L = \<lparr> pageWidth = pw, pageHeight = ph,
               imgX = 10 + (aw - fw) / 2, imgY = 10 + (ah - fh) / 2,
               imgFinalWidth = fw, imgFinalHeight = fh \<rparr>"
  have lay: "image_layout name w h = Layout L"
    using look nf
    by (simp add: image_layout_def Let_def aw_def ah_def q_def fw_def fh_def L_def)
  have pos: "0 < fw" "0 < fh"
    using aw ah q by (simp_all add: fw_def fh_def)
  have ratio: "fw / fh = q"
    using aw ah q by (simp add: fw_def fh_def)
  have fitw: "fw \<le> aw"
  proof (cases "q > aw / ah")
    case True then show ?thesis by (simp add: fw_def)
  next
    case False
    then have "q \<le> aw / ah" by simp
    then have "ah * q \<le> aw" using ah by (simp add: field_simps)
    then show ?thesis using False by (simp add: fw_def)
  qed
  have fith: "fh \<le> ah"
  proof (cases "q > aw / ah")
    case True
    then have "aw < q * ah" using ah by (simp add: field_simps)
    then have "aw / q \<le> ah" using q by (simp add: field_simps)
    then show ?thesis using True by (simp add: fh_def)
  next
    case False then show ?thesis by (simp add: fh_def)
  qed
  have tight: "fw = aw \<or> fh = ah"
    by (simp add: fw_def fh_def)
  have sel: "pageWidth L = pw" "pageHeight L = ph" "imgFinalWidth L = fw"
    "imgFinalHeight L = fh" "imgX L = 10 + (aw - fw) / 2" "imgY L = 10 + (ah - fh) / 2"
    by (simp_all add: L_def)
  have c3: "imgX L - 10 = (pw - 10) - (imgX L + imgFinalWidth L)"
    and c4: "imgY L - 10 = (ph - 10) - (imgY L + imgFinalHeight L)"
    by (simp_all add: sel aw_def ah_def field_simps)
  have "spec_fitted pw ph w h L"
    unfolding spec_fitted_def
    using pos ratio fitw fith tight c3 c4
    unfolding sel(1-4) aw_def [symmetric] ah_def [symmetric] q_def [symmetric]
    by blast
  with lay show ?thesis by blast
qed

lemma page_of_layout_named:
  assumes "spec_fitted pw ph w h l"
  shows "spec_page_named pw ph w h (page_of_layout l)"
  using assms by (simp add: spec_page_named_def page_of_layout_def spec_fitted_def)

lemma assemble_fit:
  "\<exists>ps. assemble_pages ''fit'' imgs = Inr ps
      \<and> list_all2 (\<lambda>img p. spec_page_fit (img_width img) (img_height img) p
             \<and> pg_orientation p
                 = (if img_width img > img_height img then Landscape else Portrait)) imgs ps"
proof (induction imgs)
  case Nil
  show ?case by simp
next
  case (Cons img imgs)
  then obtain ps where ps: "assemble_pages ''fit'' imgs = Inr ps"
      "list_all2 (\<lambda>img p. spec_page_fit (img_width img) (img_height img) p
             \<and> pg_orientation p
                 = (if img_width img > img_height img then Landscape else Portrait)) imgs ps"
    by blast
  define l where "l = \<lparr> pageWidth = (real (img_width img) / 96) * 25.4,
      pageHeight = (real (img_height img) / 96) * 25.4, imgX = 0, imgY = 0,
      imgFinalWidth = (real (img_width img) / 96) * 25.4,
      imgFinalHeight = (real (img_height img) / 96) * 25.4 \<rparr>"
  have lay: "image_layout ''fit'' (img_width img) (img_height img) = Layout l"
    by (simp add: image_layout_def Let_def l_def)
  have pg: "spec_page_fit (img_width img) (img_height img) (page_of_layout l)"
    by (simp add: spec_page_fit_def page_of_layout_def l_def)
  have orient: "pg_orientation (page_of_layout l)
      = (if img_width img > img_height img then Landscape else Portrait)"
    by (simp add: page_of_layout_def l_def)
  have "assemble_pages ''fit'' (img # imgs) = Inr (page_of_layout l # ps)"
    using lay ps(1) by simp
  then show ?case using pg orient ps(2) by simp
qed

lemma assemble_named:
  assumes pw: "20 < pw" and ph: "20 < ph" and port: "pw \<le> ph"
    and look: "map_of pageSizes name = Some (pw, ph)" and nf: "name \<noteq> ''fit''"
    and imgs: "\<forall>img \<in> set imgs. 0 < img_width img \<and> 0 < img_height img"
  shows "\<exists>ps. assemble_pages name imgs = Inr ps
      \<and> list_all2 (\<lambda>img p. spec_page_named pw ph (img_width img) (img_height img) p
             \<and> pg_orientation p = Portrait) imgs ps"
  using imgs
proof (induction imgs)
  case Nil
  show ?case by simp
next
  case (Cons img imgs)
  then obtain ps where ps: "assemble_pages name imgs = Inr ps"
      "list_all2 (\<lambda>img p. spec_page_named pw ph (img_width img) (img_height img) p
             \<and> pg_orientation p = Portrait) imgs ps"
    by auto
  from Cons.prems obtain l where l: "image_layout name (img_width img) (img_height img) = Layout l"
      "spec_fitted pw ph (img_width img) (img_height img) l"
    using named_layout [OF _ _ pw ph look nf, of "img_width img" "img_height img"] by auto
  have pg: "spec_page_named pw ph (img_width img) (img_height img) (page_of_layout l)"
    using l(2) by (rule page_of_layout_named)
  have orient: "pg_orientation (page_of_layout l) = Portrait"
    using l(2) port by (simp add: page_of_layout_def spec_fitted_def)
  have "assemble_pages name (img # imgs) = Inr (page_of_layout l # ps)"
    using l(1) ps(1) by simp
  then show ?case using pg orient ps(2) by simp
qed

text \<open>
  C8: for an image of \<open>w\<close> by \<open>h\<close> pixels, both positive, the mode \<^verbatim>\<open>fit\<close> gives a page
  of \<open>(w / 96) * 25.4\<close> by \<open>(h / 96) * 25.4\<close> millimetres with the image at (0, 0) filling
  it; each named size gives a page of that size (A4 210 by 297, Letter 215.9 by 279.4,
  Legal 215.9 by 355.6) whatever the image's aspect ratio, with the image scaled to the
  largest size of ratio \<open>w / h\<close> inside the page minus 10 mm on each side (190 by 277 for
  A4) and centred in that box on both axes. The assembly of a non-empty list of such
  images, in each of the four modes, hands the document builder one page per image, in
  list order, each with that format and that image rectangle.
\<close>

theorem image_page_geometry:
  assumes "0 < w" and "0 < h"
  shows "image_layout ''fit'' w h =
           Layout \<lparr> pageWidth = (real w / 96) * 25.4, pageHeight = (real h / 96) * 25.4,
                    imgX = 0, imgY = 0,
                    imgFinalWidth = (real w / 96) * 25.4,
                    imgFinalHeight = (real h / 96) * 25.4 \<rparr>
       \<and> (\<exists>l. image_layout ''a4'' w h = Layout l \<and> spec_fitted 210 297 w h l
              \<and> imgFinalWidth l \<le> 190 \<and> imgFinalHeight l \<le> 277)
       \<and> (\<exists>l. image_layout ''letter'' w h = Layout l \<and> spec_fitted 215.9 279.4 w h l)
       \<and> (\<exists>l. image_layout ''legal'' w h = Layout l \<and> spec_fitted 215.9 355.6 w h l)
       \<and> (imgs \<noteq> [] \<and> (\<forall>img \<in> set imgs. 0 < img_width img \<and> 0 < img_height img) \<longrightarrow>
            (\<exists>ps. createPdfFromImages False ''fit'' imgs = Assembled ps
                 \<and> list_all2 (\<lambda>img p. spec_page_fit (img_width img) (img_height img) p
                        \<and> pg_orientation p
                            = (if img_width img > img_height img then Landscape else Portrait))
                      imgs ps)
          \<and> (\<exists>ps. createPdfFromImages False ''a4'' imgs = Assembled ps
                 \<and> list_all2 (\<lambda>img p. spec_page_named 210 297 (img_width img) (img_height img) p
                        \<and> pg_orientation p = Portrait) imgs ps)
          \<and> (\<exists>ps. createPdfFromImages False ''letter'' imgs = Assembled ps
                 \<and> list_all2 (\<lambda>img p.
                          spec_page_named 215.9 279.4 (img_width img) (img_height img) p
                        \<and> pg_orientation p = Portrait) imgs ps)
          \<and> (\<exists>ps. createPdfFromImages False ''legal'' imgs = Assembled ps
                 \<and> list_all2 (\<lambda>img p.
                          spec_page_named 215.9 355.6 (img_width img) (img_height img) p
                        \<and> pg_orientation p = Portrait) imgs ps))"
proof (intro conjI impI)
  show "image_layout ''fit'' w h =
           Layout \<lparr> pageWidth = (real w / 96) * 25.4, pageHeight = (real h / 96) * 25.4,
                    imgX = 0, imgY = 0,
                    imgFinalWidth = (real w / 96) * 25.4,
                    imgFinalHeight = (real h / 96) * 25.4 \<rparr>"
    by (simp add: image_layout_def Let_def)
  have a4: "map_of pageSizes ''a4'' = Some (210, 297)"
    and letter: "map_of pageSizes ''letter'' = Some (215.9, 279.4)"
    and legal: "map_of pageSizes ''legal'' = Some (215.9, 355.6)"
    by (simp_all add: pageSizes_def)
  obtain l where l: "image_layout ''a4'' w h = Layout l" "spec_fitted 210 297 w h l"
    using named_layout [OF assms _ _ a4] by auto
  then have "imgFinalWidth l \<le> 190 \<and> imgFinalHeight l \<le> 277"
    by (simp add: spec_fitted_def)
  with l show "\<exists>l. image_layout ''a4'' w h = Layout l \<and> spec_fitted 210 297 w h l
              \<and> imgFinalWidth l \<le> 190 \<and> imgFinalHeight l \<le> 277"
    by blast
  show "\<exists>l. image_layout ''letter'' w h = Layout l \<and> spec_fitted 215.9 279.4 w h l"
    using named_layout [OF assms _ _ letter] by simp
  show "\<exists>l. image_layout ''legal'' w h = Layout l \<and> spec_fitted 215.9 355.6 w h l"
    using named_layout [OF assms _ _ legal] by simp
  assume ne: "imgs \<noteq> [] \<and> (\<forall>img \<in> set imgs. 0 < img_width img \<and> 0 < img_height img)"
  then have run: "createPdfFromImages False name imgs =
      (case assemble_pages name imgs of Inr ps \<Rightarrow> Assembled ps | Inl e \<Rightarrow> NoDocument e)"
    for name
    by (simp add: createPdfFromImages_def)
  from ne have pos: "\<forall>img \<in> set imgs. 0 < img_width img \<and> 0 < img_height img"
    by simp
  show "\<exists>ps. createPdfFromImages False ''fit'' imgs = Assembled ps
                 \<and> list_all2 (\<lambda>img p. spec_page_fit (img_width img) (img_height img) p
                        \<and> pg_orientation p
                            = (if img_width img > img_height img then Landscape else Portrait))
                      imgs ps"
    using assemble_fit [of imgs] by (auto simp: run)
  show "\<exists>ps. createPdfFromImages False ''a4'' imgs = Assembled ps
                 \<and> list_all2 (\<lambda>img p. spec_page_named 210 297 (img_width img) (img_height img) p
                        \<and> pg_orientation p = Portrait) imgs ps"
    using assemble_named [OF _ _ _ a4 _ pos] by (auto simp: run)
  show "\<exists>ps. createPdfFromImages False ''letter'' imgs = Assembled ps
                 \<and> list_all2 (\<lambda>img p.
                          spec_page_named 215.9 279.4 (img_width img) (img_height img) p
                        \<and> pg_orientation p = Portrait) imgs ps"
    using assemble_named [OF _ _ _ letter _ pos] by (auto simp: run)
  show "\<exists>ps. createPdfFromImages False ''legal'' imgs = Assembled ps
                 \<and> list_all2 (\<lambda>img p.
                          spec_page_named 215.9 355.6 (img_width img) (img_height img) p
                        \<and> pg_orientation p = Portrait) imgs ps"
    using assemble_named [OF _ _ _ legal _ pos] by (auto simp: run)
qed

text \<open>
  The witness: an image of 960 by 480 pixels followed by one of 480 by 960, in the four
  modes.
\<close>

theorem image_page_geometry_witness:
  "image_layout ''a4'' 960 480 =
     Layout \<lparr> pageWidth = 210, pageHeight = 297, imgX = 10, imgY = 101,
              imgFinalWidth = 190, imgFinalHeight = 95 \<rparr>
   \<and> spec_fitted 210 297 960 480
        \<lparr> pageWidth = 210, pageHeight = 297, imgX = 10, imgY = 101,
              imgFinalWidth = 190, imgFinalHeight = 95 \<rparr>
   \<and> createPdfFromImages False ''fit''
        [\<lparr> img_width = 960, img_height = 480 \<rparr>, \<lparr> img_width = 480, img_height = 960 \<rparr>]
      = Assembled
          [\<lparr> pg_orientation = Landscape, pg_format = (254, 127), pg_image = (0, 0, 254, 127) \<rparr>,
           \<lparr> pg_orientation = Portrait, pg_format = (127, 254), pg_image = (0, 0, 127, 254) \<rparr>]
   \<and> createPdfFromImages False ''a4''
        [\<lparr> img_width = 960, img_height = 480 \<rparr>, \<lparr> img_width = 480, img_height = 960 \<rparr>]
      = Assembled
          [\<lparr> pg_orientation = Portrait, pg_format = (210, 297), pg_image = (10, 101, 190, 95) \<rparr>,
           \<lparr> pg_orientation = Portrait, pg_format = (210, 297), pg_image = (35.75, 10, 138.5, 277) \<rparr>]
   \<and> createPdfFromImages False ''letter''
        [\<lparr> img_width = 960, img_height = 480 \<rparr>, \<lparr> img_width = 480, img_height = 960 \<rparr>]
      = Assembled
          [\<lparr> pg_orientation = Portrait, pg_format = (215.9, 279.4), pg_image = (10, 90.725, 195.9, 97.95) \<rparr>,
           \<lparr> pg_orientation = Portrait, pg_format = (215.9, 279.4), pg_image = (43.1, 10, 129.7, 259.4) \<rparr>]
   \<and> createPdfFromImages False ''legal''
        [\<lparr> img_width = 960, img_height = 480 \<rparr>, \<lparr> img_width = 480, img_height = 960 \<rparr>]
      = Assembled
          [\<lparr> pg_orientation = Portrait, pg_format = (215.9, 355.6), pg_image = (10, 128.825, 195.9, 97.95) \<rparr>,
           \<lparr> pg_orientation = Portrait, pg_format = (215.9, 355.6), pg_image = (24.05, 10, 167.8, 335.6) \<rparr>]
   \<and> spec_page_named 215.9 279.4 480 960
        \<lparr> pg_orientation = Portrait, pg_format = (215.9, 279.4), pg_image = (43.1, 10, 129.7, 259.4) \<rparr>"
proof -
  have h1: "(0::nat) < 960" and h2: "(0::nat) < 480"
    by simp_all
  have h3: "[\<lparr> img_width = 960, img_height = 480 \<rparr>, \<lparr> img_width = 480, img_height = 960 \<rparr>] \<noteq> []
      \<and> (\<forall>img \<in> set [\<lparr> img_width = 960, img_height = 480 \<rparr>, \<lparr> img_width = 480, img_height = 960 \<rparr>].
              0 < img_width img \<and> 0 < img_height img)"
    by simp
  note inst = image_page_geometry [OF h1 h2,
      of "[\<lparr> img_width = 960, img_height = 480 \<rparr>, \<lparr> img_width = 480, img_height = 960 \<rparr>]"]
  note asm = inst [THEN conjunct2, THEN conjunct2, THEN conjunct2, THEN conjunct2, THEN mp, OF h3]
  have e1: "image_layout ''fit'' 960 480 =
     Layout \<lparr> pageWidth = 254, pageHeight = 127, imgX = 0, imgY = 0,
              imgFinalWidth = 254, imgFinalHeight = 127 \<rparr>"
    by (simp add: image_layout_def pageSizes_def Let_def)
  have e2: "image_layout ''fit'' 480 960 =
     Layout \<lparr> pageWidth = 127, pageHeight = 254, imgX = 0, imgY = 0,
              imgFinalWidth = 127, imgFinalHeight = 254 \<rparr>"
    by (simp add: image_layout_def pageSizes_def Let_def)
  have e3: "image_layout ''a4'' 960 480 =
     Layout \<lparr> pageWidth = 210, pageHeight = 297, imgX = 10, imgY = 101,
              imgFinalWidth = 190, imgFinalHeight = 95 \<rparr>"
    by (simp add: image_layout_def pageSizes_def Let_def)
  have e4: "image_layout ''a4'' 480 960 =
     Layout \<lparr> pageWidth = 210, pageHeight = 297, imgX = 35.75, imgY = 10,
              imgFinalWidth = 138.5, imgFinalHeight = 277 \<rparr>"
    by (simp add: image_layout_def pageSizes_def Let_def)
  have e5: "image_layout ''letter'' 960 480 =
     Layout \<lparr> pageWidth = 215.9, pageHeight = 279.4, imgX = 10, imgY = 90.725,
              imgFinalWidth = 195.9, imgFinalHeight = 97.95 \<rparr>"
    by (simp add: image_layout_def pageSizes_def Let_def)
  have e6: "image_layout ''letter'' 480 960 =
     Layout \<lparr> pageWidth = 215.9, pageHeight = 279.4, imgX = 43.1, imgY = 10,
              imgFinalWidth = 129.7, imgFinalHeight = 259.4 \<rparr>"
    by (simp add: image_layout_def pageSizes_def Let_def)
  have e7: "image_layout ''legal'' 960 480 =
     Layout \<lparr> pageWidth = 215.9, pageHeight = 355.6, imgX = 10, imgY = 128.825,
              imgFinalWidth = 195.9, imgFinalHeight = 97.95 \<rparr>"
    by (simp add: image_layout_def pageSizes_def Let_def)
  have e8: "image_layout ''legal'' 480 960 =
     Layout \<lparr> pageWidth = 215.9, pageHeight = 355.6, imgX = 24.05, imgY = 10,
              imgFinalWidth = 167.8, imgFinalHeight = 335.6 \<rparr>"
    by (simp add: image_layout_def pageSizes_def Let_def)
  have run_fit: "createPdfFromImages False ''fit''
        [\<lparr> img_width = 960, img_height = 480 \<rparr>, \<lparr> img_width = 480, img_height = 960 \<rparr>]
      = Assembled
          [\<lparr> pg_orientation = Landscape, pg_format = (254, 127), pg_image = (0, 0, 254, 127) \<rparr>,
           \<lparr> pg_orientation = Portrait, pg_format = (127, 254), pg_image = (0, 0, 127, 254) \<rparr>]"
    by (simp add: createPdfFromImages_def e1 e2 page_of_layout_def)
  have run_a4: "createPdfFromImages False ''a4''
        [\<lparr> img_width = 960, img_height = 480 \<rparr>, \<lparr> img_width = 480, img_height = 960 \<rparr>]
      = Assembled
          [\<lparr> pg_orientation = Portrait, pg_format = (210, 297), pg_image = (10, 101, 190, 95) \<rparr>,
           \<lparr> pg_orientation = Portrait, pg_format = (210, 297), pg_image = (35.75, 10, 138.5, 277) \<rparr>]"
    by (simp add: createPdfFromImages_def e3 e4 page_of_layout_def)
  have run_letter: "createPdfFromImages False ''letter''
        [\<lparr> img_width = 960, img_height = 480 \<rparr>, \<lparr> img_width = 480, img_height = 960 \<rparr>]
      = Assembled
          [\<lparr> pg_orientation = Portrait, pg_format = (215.9, 279.4), pg_image = (10, 90.725, 195.9, 97.95) \<rparr>,
           \<lparr> pg_orientation = Portrait, pg_format = (215.9, 279.4), pg_image = (43.1, 10, 129.7, 259.4) \<rparr>]"
    by (simp add: createPdfFromImages_def e5 e6 page_of_layout_def)
  have run_legal: "createPdfFromImages False ''legal''
        [\<lparr> img_width = 960, img_height = 480 \<rparr>, \<lparr> img_width = 480, img_height = 960 \<rparr>]
      = Assembled
          [\<lparr> pg_orientation = Portrait, pg_format = (215.9, 355.6), pg_image = (10, 128.825, 195.9, 97.95) \<rparr>,
           \<lparr> pg_orientation = Portrait, pg_format = (215.9, 355.6), pg_image = (24.05, 10, 167.8, 335.6) \<rparr>]"
    by (simp add: createPdfFromImages_def e7 e8 page_of_layout_def)
  obtain l where l: "image_layout ''a4'' 960 480 = Layout l" "spec_fitted 210 297 960 480 l"
    using inst [THEN conjunct2, THEN conjunct1] by blast
  from l e3 have sf: "spec_fitted 210 297 960 480
        \<lparr> pageWidth = 210, pageHeight = 297, imgX = 10, imgY = 101,
              imgFinalWidth = 190, imgFinalHeight = 95 \<rparr>"
    by simp
  obtain ps where ps: "createPdfFromImages False ''letter''
        [\<lparr> img_width = 960, img_height = 480 \<rparr>, \<lparr> img_width = 480, img_height = 960 \<rparr>] = Assembled ps"
      "list_all2 (\<lambda>img p. spec_page_named 215.9 279.4 (img_width img) (img_height img) p
          \<and> pg_orientation p = Portrait)
        [\<lparr> img_width = 960, img_height = 480 \<rparr>, \<lparr> img_width = 480, img_height = 960 \<rparr>] ps"
    using asm [THEN conjunct2, THEN conjunct2, THEN conjunct1] by blast
  from ps(1) run_letter have "ps =
          [\<lparr> pg_orientation = Portrait, pg_format = (215.9, 279.4), pg_image = (10, 90.725, 195.9, 97.95) \<rparr>,
           \<lparr> pg_orientation = Portrait, pg_format = (215.9, 279.4), pg_image = (43.1, 10, 129.7, 259.4) \<rparr>]"
    by simp
  with ps(2) have sp: "spec_page_named 215.9 279.4 480 960
        \<lparr> pg_orientation = Portrait, pg_format = (215.9, 279.4), pg_image = (43.1, 10, 129.7, 259.4) \<rparr>"
    by simp
  from e3 sf run_fit run_a4 run_letter run_legal sp show ?thesis
    by (intro conjI)
qed

end
